theory Spec2Isabelle
  imports Complex_Main "HOL-Library.Char_ord" "HOL-Library.List_Lexorder"
begin

section \<open>NetMonitor Pro: probing, discovery and tiered host metrics\<close>

text \<open>
  A shallow embedding of \<^verbatim>\<open>app.py\<close> (class \<^verbatim>\<open>NetworkMonitor\<close> and the Flask
  handlers) and of \<^verbatim>\<open>backup_monitor.py\<close> (class \<^verbatim>\<open>BackupMonitor\<close>).
  Python exceptions are values of the type \<open>error\<close>; a computation that may raise
  returns \<open>error + 'a\<close> with \<open>Inl\<close> for the exception. Every \<^verbatim>\<open>try/except\<close> of
  the source is a case distinction on such a value. Python floats are idealised as
  reals. What the operating system, the network, SQLite's clock and the Python
  built-ins \<^verbatim>\<open>float\<close> and \<^verbatim>\<open>int\<close> answer is input of the model: the records
  \<open>net_env\<close> and \<open>host_env\<close> hold the outcome of each external call.
\<close>

datatype error =
  IntegrityError
  | IndexError
  | ValueError
  | ZeroDivisionError
  | ImportError
  | HTTPError nat
  | UnicodeEncodeError
  | OSError string

subsection \<open>Python string operations used by the source\<close>

text \<open>\<^verbatim>\<open>s.startswith(p)\<close>, \<^verbatim>\<open>s.endswith(p)\<close> and \<^verbatim>\<open>sub in s\<close>.\<close>

definition startswith :: "string \<Rightarrow> string \<Rightarrow> bool" where
  "startswith s p = (take (length p) s = p)"

definition endswith :: "string \<Rightarrow> string \<Rightarrow> bool" where
  "endswith s p = (length p \<le> length s \<and> drop (length s - length p) s = p)"

fun str_in :: "string \<Rightarrow> string \<Rightarrow> bool" where
  "str_in sub [] = (sub = [])"
| "str_in sub (c # cs) = (startswith (c # cs) sub \<or> str_in sub cs)"

text \<open>
  \<^verbatim>\<open>s.split(sep)\<close> for a non-empty separator: a scan from the left, cutting at every
  occurrence of \<open>sep\<close> that does not overlap the previous one. The counter is the
  number of characters of a matched separator still to skip; \<open>piece\<close> is the text
  since the last cut. The result is never empty.
\<close>

fun split_go :: "string \<Rightarrow> nat \<Rightarrow> string \<Rightarrow> string \<Rightarrow> string list" where
  "split_go sep k piece [] = [piece]"
| "split_go sep (Suc k) piece (c # cs) = split_go sep k piece cs"
| "split_go sep 0 piece (c # cs) =
     (if startswith (c # cs) sep then piece # split_go sep (length sep - 1) [] cs
      else split_go sep 0 (piece @ [c]) cs)"

definition str_split :: "string \<Rightarrow> string \<Rightarrow> string list" where
  "str_split s sep = split_go sep 0 [] s"

text \<open>
  \<^verbatim>\<open>s.split()\<close> without a separator cuts at runs of whitespace and drops empty
  pieces; \<^verbatim>\<open>s.strip()\<close> removes whitespace at both ends; \<^verbatim>\<open>s.replace(c, '')\<close>
  for a single character \<open>c\<close> deletes it everywhere.
\<close>

definition is_space :: "char \<Rightarrow> bool" where
  "is_space c = (c \<in> {CHR '' '', CHR 0x09, CHR 0x0A, CHR 0x0B, CHR 0x0C, CHR 0x0D,
                       CHR 0x1C, CHR 0x1D, CHR 0x1E, CHR 0x1F})"

fun words_go :: "string \<Rightarrow> string \<Rightarrow> string list" where
  "words_go piece [] = (if piece = [] then [] else [piece])"
| "words_go piece (c # cs) =
     (if is_space c then (if piece = [] then words_go [] cs else piece # words_go [] cs)
      else words_go (piece @ [c]) cs)"

definition str_words :: "string \<Rightarrow> string list" where
  "str_words s = words_go [] s"

definition str_strip :: "string \<Rightarrow> string" where
  "str_strip s = rev (dropWhile is_space (rev (dropWhile is_space s)))"

definition str_remove :: "char \<Rightarrow> string \<Rightarrow> string" where
  "str_remove c s = filter (\<lambda>x. x \<noteq> c) s"

text \<open>\<^verbatim>\<open>xs[i]\<close> for \<open>i \<ge> 0\<close>: IndexError out of range.\<close>

definition index :: "'a list \<Rightarrow> nat \<Rightarrow> error + 'a" where
  "index xs i = (if i < length xs then Inr (xs ! i) else Inl IndexError)"

text \<open>\<^verbatim>\<open>f"{n}"\<close> for a non-negative integer: its decimal digits.\<close>

fun str_nat :: "nat \<Rightarrow> string" where
  "str_nat n = (if n < 10 then [''0123456789'' ! n]
                else str_nat (n div 10) @ [''0123456789'' ! (n mod 10)])"

definition str_int :: "int \<Rightarrow> string" where
  "str_int i = (if i < 0 then CHR ''-'' # str_nat (nat (- i)) else str_nat (nat i))"

text \<open>
  \<^verbatim>\<open>round(x, 1)\<close>: to one decimal, a tie going to the even neighbour.
\<close>

definition round_half_even :: "real \<Rightarrow> int" where
  "round_half_even x =
     (let f = \<lfloor>x\<rfloor>; d = x - of_int f
      in if d < 1 / 2 then f else if 1 / 2 < d then f + 1 else if even f then f else f + 1)"

definition round1 :: "real \<Rightarrow> real" where
  "round1 x = of_int (round_half_even (x * 10)) / 10"

subsection \<open>The SQLite store: tables \<^verbatim>\<open>devices\<close> and \<^verbatim>\<open>raspberry_pi_nodes\<close>\<close>

text \<open>
  A table is the list of its rows in insertion order. \<^verbatim>\<open>AUTOINCREMENT\<close> keys come
  from a counter that only grows. \<^verbatim>\<open>CURRENT_TIMESTAMP\<close> is an argument of each
  operation. \<^verbatim>\<open>ip_address TEXT UNIQUE NOT NULL\<close> makes a plain \<^verbatim>\<open>INSERT\<close> of a known
  address raise IntegrityError, which undoes the statement, and \<^verbatim>\<open>INSERT OR IGNORE\<close>
  skip it. A skipped \<^verbatim>\<open>INSERT OR IGNORE\<close> adds no row, but SQLite has drawn a key for
  it by then: the counter of the table is one higher afterwards.
\<close>

type_synonym timestamp = nat

record device =
  dev_id :: nat
  name :: string
  ip_address :: string
  mac_address :: "string option"
  device_type :: string
  status :: string
  last_seen :: timestamp
  latency :: "real option"
  created_at :: timestamp

record pi_node =
  node_id :: nat
  node_name :: string
  node_ip :: string
  location :: string
  is_online :: bool
  last_heartbeat :: "timestamp option"
  system_stats :: "string option"
  node_created_at :: timestamp

record database =
  devices :: "device list"
  devices_seq :: nat
  raspberry_pi_nodes :: "pi_node list"
  nodes_seq :: nat

definition empty_database :: database where
  "empty_database =
     \<lparr>devices = [], devices_seq = 0, raspberry_pi_nodes = [], nodes_seq = 0\<rparr>"

text \<open>\<^verbatim>\<open>SELECT id FROM devices WHERE ip_address = ?\<close> followed by \<^verbatim>\<open>fetchone()\<close>.\<close>

definition select_id_by_ip :: "database \<Rightarrow> string \<Rightarrow> nat option" where
  "select_id_by_ip db ip =
     (case filter (\<lambda>d. ip_address d = ip) (devices db) of
        [] \<Rightarrow> None
      | d # _ \<Rightarrow> Some (dev_id d))"

text \<open>
  \<^verbatim>\<open>INSERT INTO devices (name, ip_address, mac_address, device_type, status, latency)\<close>:
  the key, \<^verbatim>\<open>last_seen\<close> and \<^verbatim>\<open>created_at\<close> take their defaults.
\<close>

definition new_row ::
  "database \<Rightarrow> timestamp \<Rightarrow> string \<Rightarrow> string \<Rightarrow> string option \<Rightarrow> string \<Rightarrow> string
     \<Rightarrow> real option \<Rightarrow> device" where
  "new_row db now nm ip mac ty st lat =
     \<lparr>dev_id = devices_seq db + 1, name = nm, ip_address = ip, mac_address = mac,
      device_type = ty, status = st, last_seen = now, latency = lat, created_at = now\<rparr>"

definition append_row :: "database \<Rightarrow> device \<Rightarrow> database" where
  "append_row db row = db\<lparr>devices := devices db @ [row], devices_seq := dev_id row\<rparr>"

definition insert_device ::
  "database \<Rightarrow> timestamp \<Rightarrow> string \<Rightarrow> string \<Rightarrow> string option \<Rightarrow> string \<Rightarrow> string
     \<Rightarrow> real option \<Rightarrow> error + database" where
  "insert_device db now nm ip mac ty st lat =
     (if ip \<in> set (map ip_address (devices db)) then Inl IntegrityError
      else Inr (append_row db (new_row db now nm ip mac ty st lat)))"

definition insert_or_ignore_device ::
  "database \<Rightarrow> timestamp \<Rightarrow> string \<Rightarrow> string \<Rightarrow> string option \<Rightarrow> string \<Rightarrow> string
     \<Rightarrow> real option \<Rightarrow> database" where
  "insert_or_ignore_device db now nm ip mac ty st lat =
     (if ip \<in> set (map ip_address (devices db)) then db\<lparr>devices_seq := devices_seq db + 1\<rparr>
      else append_row db (new_row db now nm ip mac ty st lat))"

text \<open>
  \<^verbatim>\<open>UPDATE devices SET status = 'online', latency = ?, last_seen = CURRENT_TIMESTAMP
  WHERE ip_address = ?\<close>
\<close>

definition update_device_online ::
  "database \<Rightarrow> timestamp \<Rightarrow> real option \<Rightarrow> string \<Rightarrow> database" where
  "update_device_online db now lat ip =
     db\<lparr>devices :=
          map (\<lambda>d. if ip_address d = ip
                    then d\<lparr>status := ''online'', latency := lat, last_seen := now\<rparr>
                    else d)
            (devices db)\<rparr>"

subsection \<open>\<^verbatim>\<open>NetworkMonitor.add_sample_data\<close> and \<^verbatim>\<open>init_database\<close>\<close>

definition sample_devices ::
  "(string \<times> string \<times> string \<times> string \<times> string \<times> real) list" where
  "sample_devices =
     [(''Main Router'', ''192.168.1.1'', ''00:11:22:33:44:55'', ''Router'', ''online'', 152 / 10),
      (''Network Switch'', ''192.168.1.2'', ''00:11:22:33:44:56'', ''Switch'', ''online'', 85 / 10),
      (''WiFi Access Point'', ''192.168.1.3'', ''00:11:22:33:44:57'', ''Access Point'',
       ''warning'', 251 / 10)]"

fun add_samples ::
  "timestamp \<Rightarrow> (string \<times> string \<times> string \<times> string \<times> string \<times> real) list
     \<Rightarrow> database \<Rightarrow> database" where
  "add_samples now [] db = db"
| "add_samples now ((nm, ip, mac, ty, st, lat) # rest) db =
     add_samples now rest (insert_or_ignore_device db now nm ip (Some mac) ty st (Some lat))"

definition add_sample_data :: "timestamp \<Rightarrow> database \<Rightarrow> database" where
  "add_sample_data now db = add_samples now sample_devices db"

text \<open>
  \<^verbatim>\<open>init_database\<close>: every table is created with \<^verbatim>\<open>CREATE TABLE IF NOT EXISTS\<close>, which
  leaves an existing table as it is and makes a missing one empty; a store whose file
  does not exist yet is \<open>empty_database\<close>. Then the samples are added.
\<close>

definition init_database :: "timestamp \<Rightarrow> database \<Rightarrow> database" where
  "init_database now db = add_sample_data now db"

subsection \<open>\<^verbatim>\<open>NetworkMonitor.update_or_add_device\<close>\<close>

definition update_or_add_device ::
  "timestamp \<Rightarrow> string \<Rightarrow> real option \<Rightarrow> database \<Rightarrow> error + database" where
  "update_or_add_device now ip lat db =
     (case select_id_by_ip db ip of
        Some result \<Rightarrow> Inr (update_device_online db now lat ip)
      | None \<Rightarrow>
          (let device_name = ''Device '' @ last (str_split ip ''.'');
               device_type = ''Network Device'';
               (device_name, device_type) =
                 (if endswith ip ''.1'' \<or> endswith ip ''.254''
                  then (''Gateway '' @ last (str_split ip ''.''), ''Router'')
                  else (device_name, device_type))
           in insert_device db now device_name ip None device_type ''online'' lat))"

text \<open>
  \<^verbatim>\<open>get_network_devices\<close>: \<^verbatim>\<open>SELECT ... FROM devices ORDER BY name\<close>; the handler
  renames the columns and returns every row.
\<close>

definition get_network_devices :: "database \<Rightarrow> device list" where
  "get_network_devices db = sort_key name (devices db)"

subsection \<open>Handlers of \<^verbatim>\<open>/api/raspberry-pi\<close>\<close>

text \<open>
  A handler returns the new store, the JSON field \<^verbatim>\<open>success\<close> and the HTTP status.
  \<^verbatim>\<open>POST /api/raspberry-pi\<close> registers a node: \<^verbatim>\<open>INSERT INTO raspberry_pi_nodes (name,
  ip_address, location)\<close>, where \<^verbatim>\<open>ip_address\<close> is \<^verbatim>\<open>UNIQUE\<close> and the IntegrityError
  is caught.
\<close>

definition register_node ::
  "timestamp \<Rightarrow> string \<Rightarrow> string \<Rightarrow> string \<Rightarrow> database \<Rightarrow> database \<times> bool \<times> nat" where
  "register_node now nm ip loc db =
     (if nm = [] \<or> ip = [] then (db, False, 400)
      else if ip \<in> set (map node_ip (raspberry_pi_nodes db)) then (db, False, 400)
      else (db\<lparr>raspberry_pi_nodes := raspberry_pi_nodes db @
                 [\<lparr>node_id = nodes_seq db + 1, node_name = nm, node_ip = ip, location = loc,
                   is_online = False, last_heartbeat = None, system_stats = None,
                   node_created_at = now\<rparr>],
               nodes_seq := nodes_seq db + 1\<rparr>, True, 200))"

text \<open>
  \<^verbatim>\<open>POST /api/raspberry-pi/<node_id>/heartbeat\<close>. The path segment is text; SQLite
  compares it with the integer column \<^verbatim>\<open>id\<close> after its numeric conversion, which is
  the parameter \<open>affinity\<close> (\<open>None\<close> for text that is no number and so equals no key).
  \<open>stats\<close> is \<^verbatim>\<open>json.dumps\<close> of the body's field \<^verbatim>\<open>systemStats\<close> when the body has
  one; the default is the empty object.
\<close>

definition raspberry_pi_heartbeat ::
  "(string \<Rightarrow> nat option) \<Rightarrow> timestamp \<Rightarrow> string \<Rightarrow> string option \<Rightarrow> database
     \<Rightarrow> database \<times> bool \<times> nat" where
  "raspberry_pi_heartbeat affinity now node stats db =
     (let system_stats_json = (case stats of Some s \<Rightarrow> s | None \<Rightarrow> ''{}'')
      in (db\<lparr>raspberry_pi_nodes :=
               map (\<lambda>n. if affinity node = Some (node_id n)
                         then n\<lparr>is_online := True, last_heartbeat := Some now,
                                system_stats := Some system_stats_json\<rparr>
                         else n)
                 (raspberry_pi_nodes db)\<rparr>, True, 200))"

text \<open>
  \<^verbatim>\<open>DELETE /api/raspberry-pi/<node_id>\<close>: \<^verbatim>\<open>DELETE FROM raspberry_pi_nodes WHERE id = ?\<close>,
  answered with success whether or not a row went.
\<close>

definition remove_raspberry_pi_node ::
  "(string \<Rightarrow> nat option) \<Rightarrow> string \<Rightarrow> database \<Rightarrow> database \<times> bool \<times> nat" where
  "remove_raspberry_pi_node affinity node db =
     (db\<lparr>raspberry_pi_nodes :=
          filter (\<lambda>n. affinity node \<noteq> Some (node_id n)) (raspberry_pi_nodes db)\<rparr>, True, 200)"

text \<open>The conversion on plain decimal numerals, for the examples.\<close>

fun digits_value :: "nat \<Rightarrow> string \<Rightarrow> nat option" where
  "digits_value acc [] = Some acc"
| "digits_value acc (c # cs) =
     (if c \<in> set ''0123456789''
      then digits_value (10 * acc + (of_char c - 48)) cs
      else None)"

definition decimal_affinity :: "string \<Rightarrow> nat option" where
  "decimal_affinity s = (if s = [] then None else digits_value 0 s)"


text \<open>
  The stores the application can be in. The file starts absent, and the constructor of
  \<^verbatim>\<open>NetworkMonitor\<close> runs \<^verbatim>\<open>init_database\<close> at every start of the process. Between
  starts the writers of the two tables are \<^verbatim>\<open>update_or_add_device\<close> (called by the
  discovery sweep), the registration of a node, a heartbeat, and the removal of a
  node, each with any arguments.
\<close>

inductive reachable :: "database \<Rightarrow> bool" where
  first_start: "reachable (init_database now empty_database)"
| restart: "reachable db \<Longrightarrow> reachable (init_database now db)"
| upsert: "reachable db \<Longrightarrow> update_or_add_device now ip lat db = Inr db' \<Longrightarrow> reachable db'"
| registration: "reachable db \<Longrightarrow> reachable (fst (register_node now nm ip loc db))"
| heartbeat: "reachable db \<Longrightarrow> reachable (fst (raspberry_pi_heartbeat affinity now node stats db))"
| removal: "reachable db \<Longrightarrow> reachable (fst (remove_raspberry_pi_node affinity node db))"

text \<open>
  The invariant of the reachable stores: addresses are unique and each sample address
  carries its sample name.
\<close>

definition seeded :: "database \<Rightarrow> bool" where
  "seeded db \<longleftrightarrow>
     distinct (map ip_address (devices db)) \<and>
     (\<exists>d\<in>set (devices db). ip_address d = ''192.168.1.1'' \<and> name d = ''Main Router'') \<and>
     (\<exists>d\<in>set (devices db). ip_address d = ''192.168.1.2'' \<and> name d = ''Network Switch'') \<and>
     (\<exists>d\<in>set (devices db). ip_address d = ''192.168.1.3'' \<and> name d = ''WiFi Access Point'')"

subsection \<open>The environment of the Python process\<close>

text \<open>
  \<open>os_env\<close> holds what both modules ask of the platform: \<^verbatim>\<open>platform.system()\<close>, the
  outcome of \<^verbatim>\<open>subprocess.run(argv, capture_output=True, text=True, timeout=...)\<close>
  (\<open>Inl\<close> when the program is missing or the timeout expires),
  \<^verbatim>\<open>psutil.net_if_addrs()\<close> as the list of its items, and the built-ins
  \<^verbatim>\<open>float(s)\<close> and \<^verbatim>\<open>int(s)\<close> on text (\<open>None\<close> for ValueError).
\<close>

record proc =
  returncode :: int
  stdout :: string

datatype family = AF_INET | AF_INET6 | AF_PACKET

record snicaddr =
  family :: family
  address :: string
  netmask :: string

record os_env =
  platform_system :: string
  run :: "string list \<Rightarrow> error + proc"
  net_if_addrs :: "error + (string \<times> snicaddr list) list"
  pyfloat :: "string \<Rightarrow> real option"
  pyint :: "string \<Rightarrow> int option"

text \<open>\<^verbatim>\<open>s.lower()\<close> on ASCII text.\<close>

definition str_lower :: "string \<Rightarrow> string" where
  "str_lower s =
     map (\<lambda>c. case map_of (zip ''ABCDEFGHIJKLMNOPQRSTUVWXYZ'' ''abcdefghijklmnopqrstuvwxyz'') c of
                 Some l \<Rightarrow> l
               | None \<Rightarrow> c) s"

text \<open>
  A reader of plain decimal numerals (digits, optionally a point and more digits,
  whitespace around them allowed) for the examples. Python's \<^verbatim>\<open>float\<close> and
  \<^verbatim>\<open>int\<close> accept these with the same value, and more.
\<close>

definition decimal_float :: "string \<Rightarrow> real option" where
  "decimal_float s =
     (let t = str_strip s;
          whole = takeWhile (\<lambda>c. c \<noteq> CHR ''.'') t;
          frac = drop (length whole + 1) t
      in if whole = [] \<or> (frac = [] \<and> whole \<noteq> t) then None
         else (case (digits_value 0 whole, digits_value 0 frac) of
                 (Some a, Some b) \<Rightarrow> Some (of_nat a + of_nat b / 10 ^ length frac)
               | _ \<Rightarrow> None))"

definition decimal_int :: "string \<Rightarrow> int option" where
  "decimal_int s =
     (let t = str_strip s
      in if t = [] then None else map_option int (digits_value 0 t))"

subsection \<open>\<^verbatim>\<open>NetworkMonitor.ping_host\<close>\<close>

text \<open>
  \<open>net_env\<close> adds the outcome of each network call of \<^verbatim>\<open>ping_host\<close> for a target:
  \<^item> \<open>connect_ex\<close>: creating the TCP socket and \<^verbatim>\<open>sock.connect_ex((target, 80))\<close>; the
    result code, or \<open>Inl\<close> when the call raises (a name that does not resolve);
  \<^item> \<open>raw_sendto\<close>: creating the raw ICMP socket and \<^verbatim>\<open>sendto\<close>; the exception if any;
  \<^item> \<open>gethostbyname\<close>: the exception if any;
  \<^item> \<open>http_exchange\<close>: the HTTP exchange behind \<^verbatim>\<open>urllib.request.urlopen(url,
    timeout=5)\<close>: the status of the final response, after the redirects the library
    follows, or \<open>Inl\<close> when no response arrives;
  \<^item> \<open>tcp_ms\<close>, \<open>raw_ms\<close>, \<open>dns_ms\<close>, \<open>http_ms\<close>: the value of
    \<^verbatim>\<open>(time.time() - start_time) * 1000\<close> where each method reads the clock;
  \<^item> \<open>stdout_encodes\<close>: whether the encoding of \<^verbatim>\<open>sys.stdout\<close> can encode a text.
    The exception handlers of the first three methods print a message that contains
    the target, and \<^verbatim>\<open>print\<close> raises UnicodeEncodeError, inside the handler, when it
    cannot be encoded (a lone surrogate in a target taken from a JSON request, for
    one). The other parts of these messages, and every other message the modelled
    code prints, are constants and the text of an exception.
\<close>

record net_env = os_env +
  connect_ex :: "string \<Rightarrow> error + int"
  raw_sendto :: "string \<Rightarrow> error option"
  gethostbyname :: "string \<Rightarrow> error option"
  http_exchange :: "string \<Rightarrow> error + nat"
  tcp_ms :: "string \<Rightarrow> real"
  raw_ms :: "string \<Rightarrow> real"
  dns_ms :: "string \<Rightarrow> real"
  http_ms :: "string \<Rightarrow> real"
  stdout_encodes :: "string \<Rightarrow> bool"

definition print_target :: "net_env \<Rightarrow> string \<Rightarrow> error option" where
  "print_target w target = (if stdout_encodes w target then None else Some UnicodeEncodeError)"

text \<open>
  \<^verbatim>\<open>urlopen\<close> is the standard library's. It returns the response only when the final
  status is 2xx: its \<^verbatim>\<open>HTTPErrorProcessor\<close> hands every other status to the error
  handlers, and the default handler raises \<^verbatim>\<open>HTTPError\<close>.
\<close>

definition urlopen :: "net_env \<Rightarrow> string \<Rightarrow> error + nat" where
  "urlopen w url =
     (case http_exchange w url of
        Inl e \<Rightarrow> Inl e
      | Inr code \<Rightarrow> if 200 \<le> code \<and> code < 300 then Inr code else Inl (HTTPError code))"

text \<open>\<^verbatim>\<open>cmd.split()\<close> of the command line built from the count and the target.\<close>

definition ping_command :: "net_env \<Rightarrow> string \<Rightarrow> int \<Rightarrow> string list" where
  "ping_command w target count =
     str_words (if str_lower (platform_system w) = ''windows''
                then ''ping -n '' @ str_int count @ '' '' @ target
                else ''ping -c '' @ str_int count @ '' '' @ target)"

text \<open>
  \<^verbatim>\<open>float(line.split('time=')[1].split('ms')[0])\<close> under its bare \<^verbatim>\<open>except\<close>:
  \<open>None\<close> when the expression raises.
\<close>

definition parse_time :: "(string \<Rightarrow> real option) \<Rightarrow> string \<Rightarrow> real option" where
  "parse_time float line =
     (case index (str_split line ''time='') 1 of
        Inl e \<Rightarrow> None
      | Inr rest \<Rightarrow>
          (case index (str_split rest ''ms'') 0 of
             Inl e \<Rightarrow> None
           | Inr field \<Rightarrow> float field))"

text \<open>
  The loop \<^verbatim>\<open>for line in lines\<close>: it returns at the first line whose field parses,
  goes on to the next line when the parse raises, and falls out of the loop otherwise.
\<close>

fun scan_lines :: "(string \<Rightarrow> real option) \<Rightarrow> string list \<Rightarrow> real option" where
  "scan_lines float [] = None"
| "scan_lines float (line # lines) =
     (if str_in ''time='' line
      then (case parse_time float line of
              Some ms \<Rightarrow> Some ms
            | None \<Rightarrow> scan_lines float lines)
      else scan_lines float lines)"

text \<open>
  Each method yields \<open>Inr (Some r)\<close> when it returns the pair \<open>r\<close>, \<open>Inr None\<close> when
  control falls through to the next method (its exception was caught and reported,
  or no \<^verbatim>\<open>return\<close> was reached), and \<open>Inl\<close> when an exception leaves
  \<^verbatim>\<open>ping_host\<close>: the \<^verbatim>\<open>print\<close> of a handler raised. The raw send of method 2 and
  the whole of method 4 are under a bare \<^verbatim>\<open>except: pass\<close>, which prints nothing.
\<close>

definition ping_method1 ::
  "net_env \<Rightarrow> string \<Rightarrow> int \<Rightarrow> error + (bool \<times> real option) option" where
  "ping_method1 w target count =
     (case run w (ping_command w target count) of
        Inl e \<Rightarrow>
          (case print_target w target of
             Some print_error \<Rightarrow> Inl print_error
           | None \<Rightarrow> Inr None)
      | Inr result \<Rightarrow>
          if returncode result = 0
          then (let output = stdout result
                in Inr (Some (True, if str_in ''time='' output
                                    then scan_lines (pyfloat w) (str_split output [CHR 0x0A])
                                    else None)))
          else Inr (Some (False, None)))"

definition ping_method2 :: "net_env \<Rightarrow> string \<Rightarrow> error + (bool \<times> real option) option" where
  "ping_method2 w target =
     (case connect_ex w target of
        Inl e \<Rightarrow>
          (case print_target w target of
             Some print_error \<Rightarrow> Inl print_error
           | None \<Rightarrow> Inr None)
      | Inr result \<Rightarrow>
          if result = 0 then Inr (Some (True, Some (round1 (tcp_ms w target))))
          else (case raw_sendto w target of
                  None \<Rightarrow> Inr (Some (True, Some (round1 (raw_ms w target))))
                | Some e \<Rightarrow> Inr None))"

definition ping_method3 :: "net_env \<Rightarrow> string \<Rightarrow> error + (bool \<times> real option) option" where
  "ping_method3 w target =
     (case gethostbyname w target of
        None \<Rightarrow> Inr (Some (True, Some (round1 (dns_ms w target))))
      | Some e \<Rightarrow>
          (case print_target w target of
             Some print_error \<Rightarrow> Inl print_error
           | None \<Rightarrow> Inr None))"

definition ping_method4 :: "net_env \<Rightarrow> string \<Rightarrow> error + (bool \<times> real option) option" where
  "ping_method4 w target =
     (case urlopen w (''http://'' @ target) of
        Inr response \<Rightarrow> Inr (Some (True, Some (round1 (http_ms w target))))
      | Inl e \<Rightarrow> Inr None)"

definition ping_host :: "net_env \<Rightarrow> string \<Rightarrow> int \<Rightarrow> error + bool \<times> real option" where
  "ping_host w target count =
     (case ping_method1 w target count of
        Inl e \<Rightarrow> Inl e
      | Inr (Some r) \<Rightarrow> Inr r
      | Inr None \<Rightarrow>
          (case ping_method2 w target of
             Inl e \<Rightarrow> Inl e
           | Inr (Some r) \<Rightarrow> Inr r
           | Inr None \<Rightarrow>
               (case ping_method3 w target of
                  Inl e \<Rightarrow> Inl e
                | Inr (Some r) \<Rightarrow> Inr r
                | Inr None \<Rightarrow>
                    (case ping_method4 w target of
                       Inl e \<Rightarrow> Inl e
                     | Inr (Some r) \<Rightarrow> Inr r
                     | Inr None \<Rightarrow> Inr (False, None)))))"

text \<open>
  The claim's words "every strategy in its chain has failed", read strategy by
  strategy: the ping utility did not exit with zero, the TCP connect did not return
  zero, the raw send raised, the name did not resolve and the HTTP request raised.
\<close>

definition every_strategy_fails :: "net_env \<Rightarrow> string \<Rightarrow> int \<Rightarrow> bool" where
  "every_strategy_fails w target count \<longleftrightarrow>
     (case run w (ping_command w target count) of
        Inr result \<Rightarrow> returncode result \<noteq> 0
      | Inl e \<Rightarrow> True) \<and>
     (case connect_ex w target of Inr code \<Rightarrow> code \<noteq> 0 | Inl e \<Rightarrow> True) \<and>
     raw_sendto w target \<noteq> None \<and>
     gethostbyname w target \<noteq> None \<and>
     isl (urlopen w (''http://'' @ target))"

subsection \<open>\<^verbatim>\<open>NetworkMonitor.discover_network_devices\<close>\<close>

text \<open>
  The first loop collects \<^verbatim>\<open>local_nets\<close>: for every IPv4 address that does not start
  with \<^verbatim>\<open>127.\<close>, its first three dot-separated parts (IndexError when there are
  fewer).
\<close>

fun subnets_of :: "snicaddr list \<Rightarrow> error + string list" where
  "subnets_of [] = Inr []"
| "subnets_of (addr # addrs) =
     (if family addr = AF_INET \<and> \<not> startswith (address addr) ''127.''
      then (let ip_parts = str_split (address addr) ''.''
            in case (index ip_parts 0, index ip_parts 1, index ip_parts 2) of
                 (Inr p0, Inr p1, Inr p2) \<Rightarrow>
                   (case subnets_of addrs of
                      Inl e \<Rightarrow> Inl e
                    | Inr nets \<Rightarrow> Inr ((p0 @ ''.'' @ p1 @ ''.'' @ p2) # nets))
               | _ \<Rightarrow> Inl IndexError)
      else subnets_of addrs)"

fun local_nets :: "(string \<times> snicaddr list) list \<Rightarrow> error + string list" where
  "local_nets [] = Inr []"
| "local_nets ((interface, addrs) # items) =
     (case subnets_of addrs of
        Inl e \<Rightarrow> Inl e
      | Inr nets \<Rightarrow>
          (case local_nets items of
             Inl e \<Rightarrow> Inl e
           | Inr others \<Rightarrow> Inr (nets @ others)))"

definition common_ips :: "nat list" where
  "common_ips = [1, 254, 100, 101, 102]"

text \<open>
  The inner loop over \<^verbatim>\<open>common_ips\<close> for one subnet. \<open>clk ip\<close> is
  \<^verbatim>\<open>CURRENT_TIMESTAMP\<close> when the row of \<open>ip\<close> is written. Every upsert commits on
  its own, so when a probe or an upsert raises, the loop ends with the store of the
  last commit and the exception.
\<close>

fun scan_subnet ::
  "net_env \<Rightarrow> (string \<Rightarrow> timestamp) \<Rightarrow> string \<Rightarrow> nat list \<Rightarrow> database
     \<Rightarrow> database \<times> error option" where
  "scan_subnet w clk subnet [] db = (db, None)"
| "scan_subnet w clk subnet (last_octet # octets) db =
     (let target_ip = subnet @ ''.'' @ str_nat last_octet
      in case ping_host w target_ip 1 of
           Inl e \<Rightarrow> (db, Some e)
         | Inr (success, ms) \<Rightarrow>
             if success
             then (case update_or_add_device (clk target_ip) target_ip ms db of
                     Inl e \<Rightarrow> (db, Some e)
                   | Inr db' \<Rightarrow> scan_subnet w clk subnet octets db')
             else scan_subnet w clk subnet octets db)"

fun scan_subnets ::
  "net_env \<Rightarrow> (string \<Rightarrow> timestamp) \<Rightarrow> string list \<Rightarrow> database \<Rightarrow> database \<times> error option" where
  "scan_subnets w clk [] db = (db, None)"
| "scan_subnets w clk (subnet # subnets) db =
     (case scan_subnet w clk subnet common_ips db of
        (db', Some e) \<Rightarrow> (db', Some e)
      | (db', None) \<Rightarrow> scan_subnets w clk subnets db')"

text \<open>
  The whole body runs under \<^verbatim>\<open>try\<close>; \<^verbatim>\<open>except Exception\<close> prints and returns.
  \<^verbatim>\<open>set(local_nets)\<close> is visited in an order Python does not fix; the model takes
  the subnets in order of first occurrence.
\<close>

definition discover_network_devices ::
  "net_env \<Rightarrow> (string \<Rightarrow> timestamp) \<Rightarrow> database \<Rightarrow> database" where
  "discover_network_devices w clk db =
     (case net_if_addrs w of
        Inl e \<Rightarrow> db
      | Inr interfaces \<Rightarrow>
          (case local_nets interfaces of
             Inl e \<Rightarrow> db
           | Inr nets \<Rightarrow> fst (scan_subnets w clk (remdups nets) db)))"

subsection \<open>Example environments\<close>

text \<open>
  A Linux host with one interface at 192.168.1.50, the decimal readers for
  \<^verbatim>\<open>float\<close> and \<^verbatim>\<open>int\<close>, a standard output that encodes every text, and the
  given answers of the network.
\<close>

definition example_net ::
  "(string list \<Rightarrow> error + proc) \<Rightarrow> (string \<Rightarrow> error + int) \<Rightarrow> (string \<Rightarrow> error option)
     \<Rightarrow> (string \<Rightarrow> error option) \<Rightarrow> (string \<Rightarrow> error + nat) \<Rightarrow> net_env" where
  "example_net ping tcp raw dns http =
     \<lparr>platform_system = ''Linux'', run = ping,
      net_if_addrs =
        Inr [(''lo'', [\<lparr>family = AF_INET, address = ''127.0.0.1'', netmask = ''255.0.0.0''\<rparr>]),
             (''eth0'', [\<lparr>family = AF_INET, address = ''192.168.1.50'',
                          netmask = ''255.255.255.0''\<rparr>])],
      pyfloat = decimal_float, pyint = decimal_int,
      connect_ex = tcp, raw_sendto = raw, gethostbyname = dns, http_exchange = http,
      tcp_ms = (\<lambda>target. 12), raw_ms = (\<lambda>target. 15), dns_ms = (\<lambda>target. 3),
      http_ms = (\<lambda>target. 40), stdout_encodes = (\<lambda>text. True)\<rparr>"

text \<open>Characters that every encoding of standard output has.\<close>

definition ascii_text :: string where
  "ascii_text = ''abcdefghijklmnopqrstuvwxyzABCDEFGHIJKLMNOPQRSTUVWXYZ0123456789 .:-_/''"

text \<open>No strategy gets through: no ping program, no route, no privilege, no name.\<close>

definition dead_net :: net_env where
  "dead_net =
     example_net (\<lambda>argv. Inl (OSError ''ping: not found''))
       (\<lambda>target. Inr 113) (\<lambda>target. Some (OSError ''Operation not permitted''))
       (\<lambda>target. Some (OSError ''Name or service not known''))
       (\<lambda>url. Inl (OSError ''No route to host''))"

text \<open>
  The same network seen by a process whose standard output encodes ASCII only, and on
  which encoding the arguments of the ping command fails for other text.
\<close>

definition ascii_stdout_net :: net_env where
  "ascii_stdout_net =
     dead_net
       \<lparr>run := (\<lambda>argv. if list_all (list_all (\<lambda>c. c \<in> set ascii_text)) argv
                        then Inl (OSError ''ping: not found'')
                        else Inl UnicodeEncodeError),
        stdout_encodes := list_all (\<lambda>c. c \<in> set ascii_text)\<rparr>"

text \<open>
  A host that drops ICMP echo requests and serves HTTP: the ping utility runs and
  exits with 1, a TCP connect to port 80 succeeds.
\<close>

definition icmp_filtered_net :: net_env where
  "icmp_filtered_net =
     example_net (\<lambda>argv. Inr \<lparr>returncode = 1, stdout = ''1 packets transmitted, 0 received''\<rparr>)
       (\<lambda>target. Inr 0) (\<lambda>target. Some (OSError ''Operation not permitted''))
       (\<lambda>target. None) (\<lambda>url. Inr 200)"

text \<open>
  No ping program, no direct route and no local resolver; HTTP goes through a proxy,
  and the answer to the request is a 404.
\<close>

definition proxy_404_net :: net_env where
  "proxy_404_net =
     example_net (\<lambda>argv. Inl (OSError ''ping: not found''))
       (\<lambda>target. Inl (OSError ''Name or service not known''))
       (\<lambda>target. Some (OSError ''Operation not permitted''))
       (\<lambda>target. Some (OSError ''Name or service not known''))
       (\<lambda>url. Inr 404)"

definition proxy_200_net :: net_env where
  "proxy_200_net =
     example_net (\<lambda>argv. Inl (OSError ''ping: not found''))
       (\<lambda>target. Inl (OSError ''Name or service not known''))
       (\<lambda>target. Some (OSError ''Operation not permitted''))
       (\<lambda>target. Some (OSError ''Name or service not known''))
       (\<lambda>url. Inr 200)"

text \<open>The ping utility exits with zero and prints the given text.\<close>

definition answering_net :: "string \<Rightarrow> net_env" where
  "answering_net output =
     example_net (\<lambda>argv. Inr \<lparr>returncode = 0, stdout = output\<rparr>)
       (\<lambda>target. Inr 111) (\<lambda>target. Some (OSError ''Operation not permitted''))
       (\<lambda>target. None) (\<lambda>url. Inl (OSError ''Connection refused''))"

text \<open>
  Only the hosts with suffix 1 and 254 of the subnet answer the ping utility; for every
  other target it exits with 1.
\<close>

definition gateways_net :: "string \<Rightarrow> net_env" where
  "gateways_net subnet =
     example_net
       (\<lambda>argv. if argv = [''ping'', ''-c'', ''1'', subnet @ ''.1''] \<or>
                   argv = [''ping'', ''-c'', ''1'', subnet @ ''.254'']
                then Inr \<lparr>returncode = 0, stdout = ''64 bytes: icmp_seq=1 ttl=64 time=1.5 ms''\<rparr>
                else Inr \<lparr>returncode = 1, stdout = []\<rparr>)
       (\<lambda>target. Inr 111) (\<lambda>target. Some (OSError ''Operation not permitted''))
       (\<lambda>target. None) (\<lambda>url. Inl (OSError ''Connection refused''))"

subsection \<open>The host as seen by the metrics collectors\<close>

text \<open>
  \<open>host_env\<close> adds what the three collectors read:
  \<^item> \<open>cpu_percent\<close>, \<open>virtual_memory_percent\<close>, \<open>disk_usage_percent\<close>, \<open>boot_time\<close>:
    the outcome of \<^verbatim>\<open>psutil.cpu_percent(interval=1)\<close>, \<^verbatim>\<open>psutil.virtual_memory().percent\<close>,
    \<^verbatim>\<open>psutil.disk_usage('/').percent\<close> and \<^verbatim>\<open>psutil.boot_time()\<close>; \<open>time_now\<close> is
    \<^verbatim>\<open>time.time()\<close>;
  \<^item> \<open>proc_stat\<close>: opening \<^verbatim>\<open>/proc/stat\<close> and reading its first line;
    \<open>proc_meminfo\<close>: opening \<^verbatim>\<open>/proc/meminfo\<close> and reading its lines;
    \<open>meminfo_exists\<close>: \<^verbatim>\<open>os.path.exists('/proc/meminfo')\<close>;
    \<open>statvfs_root\<close>: \<^verbatim>\<open>os.statvfs('/')\<close>;
  \<^item> \<open>basic_interfaces\<close> and \<open>basic_uptime\<close>: the values returned by
    \<^verbatim>\<open>BackupMonitor.get_network_interfaces_basic\<close> and \<^verbatim>\<open>get_system_uptime_basic\<close>.
    Both methods catch every exception and return a list and a number; no property
    below depends on how they parse their input;
  \<^item> \<open>backup_load\<close>: the exception, if any, of
    \<^verbatim>\<open>from backup_monitor import BackupMonitor\<close> and of the constructor, which creates
    the backup database;
  \<^item> \<open>failsafe_fault\<close>: the exception, if any, raised in the failsafe block outside its
    two inner \<^verbatim>\<open>try\<close> statements (its imports).
\<close>

record statvfs =
  f_blocks :: nat
  f_frsize :: nat
  f_bavail :: nat

record interface_info =
  iface_name :: string
  iface_ip :: string
  iface_netmask :: string

record host_env = os_env +
  cpu_percent :: "error + real"
  virtual_memory_percent :: "error + real"
  disk_usage_percent :: "error + real"
  boot_time :: "error + real"
  time_now :: real
  proc_stat :: "error + string"
  proc_meminfo :: "error + string list"
  meminfo_exists :: bool
  statvfs_root :: "error + statvfs"
  basic_interfaces :: "interface_info list"
  basic_uptime :: real
  backup_load :: "error option"
  failsafe_fault :: "error option"

subsection \<open>\<^verbatim>\<open>NetworkMonitor.get_system_stats\<close>\<close>

text \<open>The dictionary it returns, without the timestamp, which no caller reads.\<close>

record system_stats =
  cpu_usage :: real
  memory_usage :: real
  disk_usage :: real
  uptime_hours :: real
  interfaces :: "interface_info list"

text \<open>
  The loop over \<^verbatim>\<open>psutil.net_if_addrs().items()\<close>: interfaces whose name starts with
  \<^verbatim>\<open>lo\<close> are skipped; of the others the first IPv4 address is recorded.
\<close>

fun first_inet :: "string \<Rightarrow> snicaddr list \<Rightarrow> interface_info list" where
  "first_inet interface [] = []"
| "first_inet interface (addr # addrs) =
     (if family addr = AF_INET
      then [\<lparr>iface_name = interface, iface_ip = address addr, iface_netmask = netmask addr\<rparr>]
      else first_inet interface addrs)"

fun primary_interfaces :: "(string \<times> snicaddr list) list \<Rightarrow> interface_info list" where
  "primary_interfaces [] = []"
| "primary_interfaces ((interface, addrs) # items) =
     (if startswith interface ''lo'' then primary_interfaces items
      else first_inet interface addrs @ primary_interfaces items)"

definition zero_stats :: system_stats where
  "zero_stats =
     \<lparr>cpu_usage = 0, memory_usage = 0, disk_usage = 0, uptime_hours = 0, interfaces = []\<rparr>"

text \<open>The whole body is under \<^verbatim>\<open>try\<close>; \<^verbatim>\<open>except Exception\<close> returns the zero record.\<close>

definition get_system_stats :: "host_env \<Rightarrow> system_stats" where
  "get_system_stats h =
     (case cpu_percent h of
        Inl e \<Rightarrow> zero_stats
      | Inr cpu \<Rightarrow>
     (case virtual_memory_percent h of
        Inl e \<Rightarrow> zero_stats
      | Inr memory_percent \<Rightarrow>
     (case disk_usage_percent h of
        Inl e \<Rightarrow> zero_stats
      | Inr disk_percent \<Rightarrow>
     (case net_if_addrs h of
        Inl e \<Rightarrow> zero_stats
      | Inr items \<Rightarrow>
     (case boot_time h of
        Inl e \<Rightarrow> zero_stats
      | Inr boot \<Rightarrow>
          \<lparr>cpu_usage = round1 cpu, memory_usage = round1 memory_percent,
           disk_usage = round1 disk_percent,
           uptime_hours = round1 ((time_now h - boot) / 3600),
           interfaces = primary_interfaces items\<rparr>)))))"

subsection \<open>\<^verbatim>\<open>BackupMonitor\<close>\<close>

text \<open>
  \<^verbatim>\<open>get_cpu_usage_basic\<close>. On Linux: the integers after the first word of the first
  line of \<^verbatim>\<open>/proc/stat\<close>, the fourth being the idle time; every exception returns 0,
  and the result is clamped. Elsewhere: the output of \<^verbatim>\<open>top -bn1\<close> is searched line by
  line and word by word; the word before the first one containing \<^verbatim>\<open>us\<close> is read as a
  float (\<^verbatim>\<open>parts[i-1]\<close> is the last word when \<open>i = 0\<close>), and a word that does not parse
  lets the search continue.
\<close>

fun top_parts :: "(string \<Rightarrow> real option) \<Rightarrow> string list \<Rightarrow> nat \<Rightarrow> string list \<Rightarrow> real option" where
  "top_parts float parts i [] = None"
| "top_parts float parts i (part # rest) =
     (if str_in ''us'' part \<or> str_in ''user'' part
      then (case float (str_remove CHR ''%'' (if i = 0 then last parts else parts ! (i - 1))) of
              Some v \<Rightarrow> Some v
            | None \<Rightarrow> top_parts float parts (Suc i) rest)
      else top_parts float parts (Suc i) rest)"

fun top_lines :: "(string \<Rightarrow> real option) \<Rightarrow> string list \<Rightarrow> real option" where
  "top_lines float [] = None"
| "top_lines float (line # lines) =
     (if str_in ''Cpu(s)'' line \<or> str_in ''%Cpu'' line
      then (case top_parts float (str_words line) 0 (str_words line) of
              Some v \<Rightarrow> Some v
            | None \<Rightarrow> top_lines float lines)
      else top_lines float lines)"

definition get_cpu_usage_basic :: "host_env \<Rightarrow> real" where
  "get_cpu_usage_basic h =
     (if platform_system h = ''Linux''
      then (case proc_stat h of
              Inl e \<Rightarrow> 0
            | Inr line \<Rightarrow>
                (case those (map (pyint h) (tl (str_words line))) of
                   None \<Rightarrow> 0
                 | Some cpu_times \<Rightarrow>
                     (case index cpu_times 3 of
                        Inl e \<Rightarrow> 0
                      | Inr idle_time \<Rightarrow>
                          (let total_time = sum_list cpu_times
                           in if total_time = 0 then 0
                              else max 0 (min 100
                                     (100 * (1 - real_of_int idle_time / real_of_int total_time)))))))
      else (case run h [''top'', ''-bn1''] of
              Inl e \<Rightarrow> 0
            | Inr result \<Rightarrow>
                (case top_lines (pyfloat h) (str_split (stdout result) [CHR 0x0A]) of
                   Some v \<Rightarrow> v
                 | None \<Rightarrow> 0)))"

text \<open>
  The loop that fills the dictionary \<^verbatim>\<open>meminfo\<close> from the lines of \<^verbatim>\<open>/proc/meminfo\<close>:
  \<^verbatim>\<open>key, value = line.split(':')\<close> needs exactly two parts, and the first word of the
  value must be an integer. \<open>unit\<close> is the factor applied to it (1024 in the backup
  monitor, 1 in the failsafe block). \<^verbatim>\<open>d.get(k, default)\<close> is \<open>dict_get\<close>.
\<close>

fun build_meminfo ::
  "(string \<Rightarrow> int option) \<Rightarrow> int \<Rightarrow> string list \<Rightarrow> (string \<rightharpoonup> int) \<Rightarrow> error + (string \<rightharpoonup> int)" where
  "build_meminfo toint unit [] meminfo = Inr meminfo"
| "build_meminfo toint unit (line # lines) meminfo =
     (case str_split line '':'' of
        [key, val] \<Rightarrow>
          (case index (str_words val) 0 of
             Inl e \<Rightarrow> Inl e
           | Inr word \<Rightarrow>
               (case toint word of
                  None \<Rightarrow> Inl ValueError
                | Some v \<Rightarrow> build_meminfo toint unit lines (meminfo(str_strip key \<mapsto> v * unit))))
      | _ \<Rightarrow> Inl ValueError)"

definition dict_get :: "(string \<rightharpoonup> int) \<Rightarrow> string \<Rightarrow> int \<Rightarrow> int" where
  "dict_get d k dflt = (case d k of Some v \<Rightarrow> v | None \<Rightarrow> dflt)"

definition mem_total :: "(string \<rightharpoonup> int) \<Rightarrow> int" where
  "mem_total meminfo = dict_get meminfo ''MemTotal'' 0"

definition mem_available :: "(string \<rightharpoonup> int) \<Rightarrow> int" where
  "mem_available meminfo = dict_get meminfo ''MemAvailable'' (dict_get meminfo ''MemFree'' 0)"

record usage =
  total :: int
  used :: int
  percent :: real

definition zero_usage :: usage where
  "zero_usage = \<lparr>total = 0, used = 0, percent = 0\<rparr>"

text \<open>\<^verbatim>\<open>(used / total * 100) if total > 0 else 0\<close>\<close>

definition percent_of :: "int \<Rightarrow> int \<Rightarrow> real" where
  "percent_of u t = (if t > 0 then real_of_int u / real_of_int t * 100 else 0)"

text \<open>
  \<^verbatim>\<open>get_memory_usage_basic\<close>: \<^verbatim>\<open>/proc/meminfo\<close> on Linux, the second line of
  \<^verbatim>\<open>free -b\<close> elsewhere; every exception returns the zero record.
\<close>

definition get_memory_usage_basic :: "host_env \<Rightarrow> usage" where
  "get_memory_usage_basic h =
     (if platform_system h = ''Linux''
      then (case proc_meminfo h of
              Inl e \<Rightarrow> zero_usage
            | Inr lines \<Rightarrow>
                (case build_meminfo (pyint h) 1024 lines Map.empty of
                   Inl e \<Rightarrow> zero_usage
                 | Inr meminfo \<Rightarrow>
                     (let t = mem_total meminfo;
                          available = mem_available meminfo;
                          u = t - available
                      in \<lparr>total = t, used = u, percent = round1 (percent_of u t)\<rparr>)))
      else (case run h [''free'', ''-b''] of
              Inl e \<Rightarrow> zero_usage
            | Inr result \<Rightarrow>
                (let lines = str_split (stdout result) [CHR 0x0A]
                 in if 2 \<le> length lines
                    then (let mem_line = str_words (lines ! 1)
                          in case (index mem_line 1, index mem_line 2) of
                               (Inr w1, Inr w2) \<Rightarrow>
                                 (case (pyint h w1, pyint h w2) of
                                    (Some t, Some u) \<Rightarrow>
                                      \<lparr>total = t, used = u, percent = round1 (percent_of u t)\<rparr>
                                  | _ \<Rightarrow> zero_usage)
                             | _ \<Rightarrow> zero_usage)
                    else zero_usage)))"

text \<open>
  \<^verbatim>\<open>get_disk_usage_basic\<close>: \<^verbatim>\<open>os.statvfs('/')\<close> on Linux, the second line of
  \<^verbatim>\<open>df /\<close> elsewhere, whose fifth word is read as the percentage without rounding.
\<close>

definition get_disk_usage_basic :: "host_env \<Rightarrow> usage" where
  "get_disk_usage_basic h =
     (if platform_system h = ''Linux''
      then (case statvfs_root h of
              Inl e \<Rightarrow> zero_usage
            | Inr stat \<Rightarrow>
                (let t = int (f_blocks stat * f_frsize stat);
                     free = int (f_bavail stat * f_frsize stat);
                     u = t - free
                 in \<lparr>total = t, used = u, percent = round1 (percent_of u t)\<rparr>))
      else (case run h [''df'', ''/''] of
              Inl e \<Rightarrow> zero_usage
            | Inr result \<Rightarrow>
                (let lines = str_split (stdout result) [CHR 0x0A]
                 in if 2 \<le> length lines
                    then (let disk_line = str_words (lines ! 1)
                          in case (index disk_line 1, index disk_line 2, index disk_line 4) of
                               (Inr w1, Inr w2, Inr w4) \<Rightarrow>
                                 (case (pyint h w1, pyint h w2, pyfloat h (str_remove CHR ''%'' w4)) of
                                    (Some t, Some u, Some p) \<Rightarrow>
                                      \<lparr>total = t * 1024, used = u * 1024, percent = p\<rparr>
                                  | _ \<Rightarrow> zero_usage)
                             | _ \<Rightarrow> zero_usage)
                    else zero_usage)))"

text \<open>
  \<^verbatim>\<open>collect_system_stats\<close> and \<^verbatim>\<open>run_monitoring_cycle\<close>. The five readers never raise,
  the process count and the load average have their own handlers, and
  \<^verbatim>\<open>store_backup_data\<close> catches every exception of its writes; the fields the request
  handler reads are kept.
\<close>

record backup_stats =
  backup_cpu_usage :: real
  memory :: usage
  disk :: usage
  network_interfaces :: "interface_info list"
  uptime_seconds :: real
  backup_uptime_hours :: real

definition collect_system_stats :: "host_env \<Rightarrow> backup_stats" where
  "collect_system_stats h =
     \<lparr>backup_cpu_usage = get_cpu_usage_basic h,
      memory = get_memory_usage_basic h,
      disk = get_disk_usage_basic h,
      network_interfaces = basic_interfaces h,
      uptime_seconds = basic_uptime h,
      backup_uptime_hours = round1 (basic_uptime h / 3600)\<rparr>"

definition run_monitoring_cycle :: "host_env \<Rightarrow> backup_stats" where
  "run_monitoring_cycle h = collect_system_stats h"

subsection \<open>The handler \<^verbatim>\<open>get_host_stats\<close>\<close>

text \<open>
  The JSON object of the response. \<^verbatim>\<open>jsonify\<close> of numbers, text and lists of them
  does not fail inside a request.
\<close>

record host_response =
  cpuUsage :: real
  memoryUsage :: real
  diskUsage :: real
  uptime :: real
  networkInterfaces :: "interface_info list"
  source :: string

datatype tier = Primary | Backup | Failsafe | Minimal

text \<open>
  The body of each \<^verbatim>\<open>try\<close> block: \<open>Inl\<close> when it raises, so that the handler's
  \<^verbatim>\<open>except Exception\<close> runs. \<open>call\<close> is the outcome of \<^verbatim>\<open>monitor.get_system_stats()\<close>.
\<close>

definition primary_tier :: "error + system_stats \<Rightarrow> error + host_response" where
  "primary_tier call =
     (case call of
        Inl e \<Rightarrow> Inl e
      | Inr stats \<Rightarrow>
          Inr \<lparr>cpuUsage = cpu_usage stats, memoryUsage = memory_usage stats,
               diskUsage = disk_usage stats, uptime = uptime_hours stats,
               networkInterfaces = interfaces stats, source = ''primary''\<rparr>)"

definition backup_tier :: "host_env \<Rightarrow> error + host_response" where
  "backup_tier h =
     (case backup_load h of
        Some e \<Rightarrow> Inl e
      | None \<Rightarrow>
          (let stats = run_monitoring_cycle h
           in Inr \<lparr>cpuUsage = backup_cpu_usage stats, memoryUsage = percent (memory stats),
                    diskUsage = percent (disk stats), uptime = backup_uptime_hours stats,
                    networkInterfaces = network_interfaces stats, source = ''backup''\<rparr>))"

text \<open>
  The failsafe block. Memory: 50.0 unless, on Linux with \<^verbatim>\<open>/proc/meminfo\<close> present, the
  file parses and \<^verbatim>\<open>MemTotal\<close> is positive. Disk: 50.0 unless \<^verbatim>\<open>os.statvfs('/')\<close>
  succeeds with a positive total. Each has its own bare \<^verbatim>\<open>except: pass\<close>.
\<close>

definition failsafe_memory :: "host_env \<Rightarrow> real" where
  "failsafe_memory h =
     (if platform_system h = ''Linux'' \<and> meminfo_exists h
      then (case proc_meminfo h of
              Inl e \<Rightarrow> 50
            | Inr lines \<Rightarrow>
                (case build_meminfo (pyint h) 1 lines Map.empty of
                   Inl e \<Rightarrow> 50
                 | Inr meminfo \<Rightarrow>
                     (let t = mem_total meminfo; available = mem_available meminfo
                      in if t > 0
                         then round1 (real_of_int (t - available) / real_of_int t * 100)
                         else 50)))
      else 50)"

definition failsafe_disk :: "host_env \<Rightarrow> real" where
  "failsafe_disk h =
     (case statvfs_root h of
        Inl e \<Rightarrow> 50
      | Inr stat \<Rightarrow>
          (let t = int (f_blocks stat * f_frsize stat);
               free = int (f_bavail stat * f_frsize stat)
           in if t > 0 then round1 (real_of_int (t - free) / real_of_int t * 100) else 50))"

definition failsafe_tier :: "host_env \<Rightarrow> error + host_response" where
  "failsafe_tier h =
     (case failsafe_fault h of
        Some e \<Rightarrow> Inl e
      | None \<Rightarrow>
          Inr \<lparr>cpuUsage = 25, memoryUsage = failsafe_memory h, diskUsage = failsafe_disk h,
               uptime = 1,
               networkInterfaces =
                 [\<lparr>iface_name = ''eth0'', iface_ip = ''127.0.0.1'', iface_netmask = ''255.0.0.0''\<rparr>],
               source = ''failsafe''\<rparr>)"

definition minimal_response :: host_response where
  "minimal_response =
     \<lparr>cpuUsage = 0, memoryUsage = 0, diskUsage = 0, uptime = 0, networkInterfaces = [],
      source = ''minimal''\<rparr>"

text \<open>
  The nested \<^verbatim>\<open>try/except\<close> of the handler. Next to the response the model returns
  the tiers whose \<^verbatim>\<open>try\<close> block was entered, in order. \<open>get_host_stats_with\<close> takes
  the outcome of the call of the primary collector as an argument, so that a collector
  that raises can be put in its place; \<open>get_host_stats\<close> is the handler with the
  collector of this repository.
\<close>

definition get_host_stats_with ::
  "error + system_stats \<Rightarrow> host_env \<Rightarrow> tier list \<times> host_response" where
  "get_host_stats_with call h =
     (case primary_tier call of
        Inr response \<Rightarrow> ([Primary], response)
      | Inl e \<Rightarrow>
          (case backup_tier h of
             Inr response \<Rightarrow> ([Primary, Backup], response)
           | Inl backup_error \<Rightarrow>
               (case failsafe_tier h of
                  Inr response \<Rightarrow> ([Primary, Backup, Failsafe], response)
                | Inl final_error \<Rightarrow> ([Primary, Backup, Failsafe, Minimal], minimal_response))))"

definition get_host_stats :: "host_env \<Rightarrow> tier list \<times> host_response" where
  "get_host_stats h = get_host_stats_with (Inr (get_system_stats h)) h"

text \<open>
  A percentage lies within bounds; the readings of a host are consistent when psutil
  reports percentages within bounds, \<^verbatim>\<open>/proc/meminfo\<close> has no more memory available
  than in total, and the root file system has no more blocks available than in total.
\<close>

definition in_percent_range :: "real \<Rightarrow> bool" where
  "in_percent_range x \<longleftrightarrow> 0 \<le> x \<and> x \<le> 100"

definition percentages_in_range :: "host_response \<Rightarrow> bool" where
  "percentages_in_range r \<longleftrightarrow>
     in_percent_range (cpuUsage r) \<and> in_percent_range (memoryUsage r) \<and>
     in_percent_range (diskUsage r)"

definition readings_consistent :: "host_env \<Rightarrow> bool" where
  "readings_consistent h \<longleftrightarrow>
     (\<forall>v. cpu_percent h = Inr v \<longrightarrow> in_percent_range v) \<and>
     (\<forall>v. virtual_memory_percent h = Inr v \<longrightarrow> in_percent_range v) \<and>
     (\<forall>v. disk_usage_percent h = Inr v \<longrightarrow> in_percent_range v) \<and>
     (\<forall>lines meminfo.
        proc_meminfo h = Inr lines \<longrightarrow>
        build_meminfo (pyint h) 1 lines Map.empty = Inr meminfo \<or>
        build_meminfo (pyint h) 1024 lines Map.empty = Inr meminfo \<longrightarrow>
        0 \<le> mem_available meminfo \<and> mem_available meminfo \<le> mem_total meminfo) \<and>
     (\<forall>stat. statvfs_root h = Inr stat \<longrightarrow> f_bavail stat \<le> f_blocks stat)"

subsection \<open>Example hosts\<close>

text \<open>
  A Linux host: eight CPU time counters, memory and disk about three quarters and one
  half used. The arguments are the lines of \<^verbatim>\<open>/proc/meminfo\<close>, the outcome of
  \<^verbatim>\<open>psutil.cpu_percent\<close>, and the faults of the backup import and of the failsafe
  block.
\<close>

definition example_host ::
  "string list \<Rightarrow> error + real \<Rightarrow> error option \<Rightarrow> error option \<Rightarrow> host_env" where
  "example_host meminfo_lines cpu backup_fault fault =
     \<lparr>platform_system = ''Linux'',
      run = (\<lambda>argv. Inl (OSError ''not found'')),
      net_if_addrs =
        Inr [(''lo'', [\<lparr>family = AF_INET, address = ''127.0.0.1'', netmask = ''255.0.0.0''\<rparr>]),
             (''eth0'', [\<lparr>family = AF_PACKET, address = ''b8:27:eb:00:00:01'', netmask = []\<rparr>,
                         \<lparr>family = AF_INET, address = ''192.168.1.50'',
                          netmask = ''255.255.255.0''\<rparr>])],
      pyfloat = decimal_float, pyint = decimal_int,
      cpu_percent = cpu, virtual_memory_percent = Inr (413 / 10),
      disk_usage_percent = Inr (627 / 10), boot_time = Inr 1000, time_now = 19000,
      proc_stat = Inr ''cpu  100 0 100 700 50 0 50 0'',
      proc_meminfo = Inr meminfo_lines, meminfo_exists = True,
      statvfs_root = Inr \<lparr>f_blocks = 1000, f_frsize = 4096, f_bavail = 500\<rparr>,
      basic_interfaces =
        [\<lparr>iface_name = ''eth0'', iface_ip = ''192.168.1.50'', iface_netmask = ''255.255.255.0''\<rparr>],
      basic_uptime = 18000, backup_load = backup_fault, failsafe_fault = fault\<rparr>"

definition plain_meminfo :: "string list" where
  "plain_meminfo = [''MemTotal:        4000 kB'', ''MemFree:          500 kB'',
                    ''MemAvailable:    1000 kB'']"

text \<open>
  The memory file of a container whose memory limit is below what the kernel reports
  as available.
\<close>

definition container_meminfo :: "string list" where
  "container_meminfo = [''MemTotal:        1000 kB'', ''MemFree:          500 kB'',
                        ''MemAvailable:    2000 kB'']"

text \<open>A host that is not Linux, where \<^verbatim>\<open>top -bn1\<close> prints the given text.\<close>

definition bsd_host :: "string \<Rightarrow> host_env" where
  "bsd_host top_output =
     (example_host plain_meminfo (Inr 5) None None)
       \<lparr>platform_system := ''FreeBSD'',
        run := (\<lambda>argv. if argv = [''top'', ''-bn1'']
                         then Inr \<lparr>returncode = 0, stdout = top_output\<rparr>
                         else Inl (OSError ''not found''))\<rparr>"

section \<open>Properties\<close>

subsection \<open>The table \<^verbatim>\<open>devices\<close>\<close>

lemma filter_ip_empty: "filter (\<lambda>d. ip_address d = ip) ds = [] \<longleftrightarrow> ip \<notin> set (map ip_address ds)"
  by (induction ds) auto

lemma select_id_by_ip_None: "select_id_by_ip db ip = None \<longleftrightarrow> ip \<notin> set (map ip_address (devices db))"
  unfolding select_id_by_ip_def using filter_ip_empty [of ip "devices db"]
  by (cases "filter (\<lambda>d. ip_address d = ip) (devices db)") simp_all

lemma filter_ip_single:
  "distinct (map ip_address ds) \<Longrightarrow> d \<in> set ds \<Longrightarrow> filter (\<lambda>x. ip_address x = ip_address d) ds = [d]"
proof (induction ds)
  case Nil then show ?case by simp
next
  case (Cons a ds)
  show ?case
  proof (cases "a = d")
    case True
    with Cons.prems have "ip_address d \<notin> set (map ip_address ds)" by simp
    then have "filter (\<lambda>x. ip_address x = ip_address d) ds = []"
      using filter_ip_empty [of "ip_address d" ds] by simp
    with True show ?thesis by simp
  next
    case False
    with Cons.prems have "d \<in> set ds" "ip_address a \<noteq> ip_address d" by auto
    with Cons show ?thesis by simp
  qed
qed

lemma map_ip_update: "map ip_address (devices (update_device_online db now lat ip)) = map ip_address (devices db)"
  by (simp add: update_device_online_def o_def if_distrib cong: if_cong)

lemma filter_update:
  "filter (\<lambda>d. ip_address d = ip) (devices (update_device_online db now lat ip)) =
   map (\<lambda>d. d\<lparr>status := ''online'', latency := lat, last_seen := now\<rparr>) (filter (\<lambda>d. ip_address d = ip) (devices db))"
  by (simp add: update_device_online_def filter_map o_def if_distrib cong: if_cong)

lemma set_ip_update: "ip_address ` set (devices (update_device_online db now lat ip)) = ip_address ` set (devices db)"
  using arg_cong [OF map_ip_update, of set db now lat ip] by simp

lemma update_or_add_known:
  "ip \<in> set (map ip_address (devices db)) \<Longrightarrow>
   update_or_add_device now ip lat db = Inr (update_device_online db now lat ip)"
  using select_id_by_ip_None [of db ip] by (cases "select_id_by_ip db ip") (simp_all add: update_or_add_device_def)

lemma update_or_add_unknown:
  "ip \<notin> set (map ip_address (devices db)) \<Longrightarrow>
   update_or_add_device now ip lat db =
     Inr (append_row db (new_row db now
       ((if endswith ip ''.1'' \<or> endswith ip ''.254'' then ''Gateway '' else ''Device '') @ last (str_split ip ''.''))
       ip None (if endswith ip ''.1'' \<or> endswith ip ''.254'' then ''Router'' else ''Network Device'') ''online'' lat))"
  using select_id_by_ip_None [of db ip] by (simp add: update_or_add_device_def insert_device_def Let_def)

lemma update_or_add_total: "distinct (map ip_address (devices db)) \<Longrightarrow>
  \<exists>db'. update_or_add_device now ip lat db = Inr db' \<and> distinct (map ip_address (devices db'))
     \<and> ip \<in> set (map ip_address (devices db'))"
  by (cases "ip \<in> set (map ip_address (devices db))")
     (simp_all add: update_or_add_known update_or_add_unknown map_ip_update set_ip_update append_row_def new_row_def)

text \<open>
  Claim C5. Calling \<^verbatim>\<open>update_or_add_device\<close> twice with the same address, on a table
  whose addresses are unique (the schema's \<^verbatim>\<open>UNIQUE\<close> constraint), succeeds both times
  and leaves exactly one row for that address, and as many rows as after the first
  call. The second call sets that row's status to online and its latency and
  \<^verbatim>\<open>last_seen\<close> to the new values; every other column (key, name, type, MAC,
  \<^verbatim>\<open>created_at\<close>) is as the first call left it.
\<close>

theorem upsert_twice_one_row:
  assumes uniq: "distinct (map ip_address (devices db))"
  shows "\<exists>db1 db2 r.
           update_or_add_device t1 ip l1 db = Inr db1 \<and>
           update_or_add_device t2 ip l2 db1 = Inr db2 \<and>
           filter (\<lambda>d. ip_address d = ip) (devices db1) = [r] \<and>
           filter (\<lambda>d. ip_address d = ip) (devices db2) =
             [r\<lparr>status := ''online'', latency := l2, last_seen := t2\<rparr>] \<and>
           length (devices db2) = length (devices db1)"
proof -
  from update_or_add_total [OF uniq, of t1 ip l1] obtain db1 where
    s1: "update_or_add_device t1 ip l1 db = Inr db1" and
    d1: "distinct (map ip_address (devices db1))" and
    m1: "ip \<in> set (map ip_address (devices db1))" by blast
  from m1 obtain r where r: "r \<in> set (devices db1)" "ip_address r = ip" by auto
  with d1 have f1: "filter (\<lambda>d. ip_address d = ip) (devices db1) = [r]"
    using filter_ip_single [of "devices db1" r] by simp
  have s2: "update_or_add_device t2 ip l2 db1 = Inr (update_device_online db1 t2 l2 ip)"
    using m1 by (rule update_or_add_known)
  have f2: "filter (\<lambda>d. ip_address d = ip) (devices (update_device_online db1 t2 l2 ip)) =
        [r\<lparr>status := ''online'', latency := l2, last_seen := t2\<rparr>]"
    by (simp add: filter_update f1)
  have len: "length (devices (update_device_online db1 t2 l2 ip)) = length (devices db1)"
    by (simp add: update_device_online_def)
  from s1 s2 f1 f2 len show ?thesis by blast
qed

theorem upsert_twice_one_row_witness:
  "distinct (map ip_address (devices (init_database 0 empty_database))) \<and>
   (\<exists>db1 db2 r.
      update_or_add_device 7 ''10.0.0.1'' (Some 3) (init_database 0 empty_database) = Inr db1 \<and>
      update_or_add_device 9 ''10.0.0.1'' (Some 4) db1 = Inr db2 \<and>
      filter (\<lambda>d. ip_address d = ''10.0.0.1'') (devices db1) = [r] \<and>
      filter (\<lambda>d. ip_address d = ''10.0.0.1'') (devices db2) =
        [r\<lparr>status := ''online'', latency := Some 4, last_seen := 9\<rparr>] \<and>
      length (devices db2) = length (devices db1))"
proof -
  have h: "distinct (map ip_address (devices (init_database 0 empty_database)))"
    by (simp add: init_database_def add_sample_data_def sample_devices_def
        insert_or_ignore_device_def append_row_def new_row_def empty_database_def)
  show ?thesis using h upsert_twice_one_row [OF h, of 7 "''10.0.0.1''" "Some 3" 9 "Some 4"] by simp
qed

subsection \<open>Seeding at start-up\<close>

lemma init_database_fresh:
  "devices (init_database now empty_database) =
     [\<lparr>dev_id = 1, name = ''Main Router'', ip_address = ''192.168.1.1'',
       mac_address = Some ''00:11:22:33:44:55'', device_type = ''Router'', status = ''online'',
       last_seen = now, latency = Some (152 / 10), created_at = now\<rparr>,
      \<lparr>dev_id = 2, name = ''Network Switch'', ip_address = ''192.168.1.2'',
       mac_address = Some ''00:11:22:33:44:56'', device_type = ''Switch'', status = ''online'',
       last_seen = now, latency = Some (85 / 10), created_at = now\<rparr>,
      \<lparr>dev_id = 3, name = ''WiFi Access Point'', ip_address = ''192.168.1.3'',
       mac_address = Some ''00:11:22:33:44:57'', device_type = ''Access Point'',
       status = ''warning'', last_seen = now, latency = Some (251 / 10), created_at = now\<rparr>]"
  by (simp add: init_database_def add_sample_data_def sample_devices_def
      insert_or_ignore_device_def append_row_def new_row_def empty_database_def)

lemma init_database_known:
  assumes "''192.168.1.1'' \<in> ip_address ` set (devices db)"
      and "''192.168.1.2'' \<in> ip_address ` set (devices db)"
      and "''192.168.1.3'' \<in> ip_address ` set (devices db)"
  shows "init_database now db = db\<lparr>devices_seq := devices_seq db + 3\<rparr>"
  using assms
  by (simp add: init_database_def add_sample_data_def sample_devices_def insert_or_ignore_device_def)

lemma seeded_known:
  assumes "seeded db"
  shows "''192.168.1.1'' \<in> ip_address ` set (devices db)"
    and "''192.168.1.2'' \<in> ip_address ` set (devices db)"
    and "''192.168.1.3'' \<in> ip_address ` set (devices db)"
  using assms unfolding seeded_def by force+

lemma seeded_devices: "devices db' = devices db \<Longrightarrow> seeded db' = seeded db"
  by (simp add: seeded_def)

lemma seeded_fresh: "seeded (init_database now empty_database)"
  unfolding seeded_def by (simp add: init_database_fresh)

lemma seeded_update:
  assumes "seeded db"
  shows "seeded (update_device_online db now lat ip)"
proof -
  have keep: "\<And>a n. \<exists>d\<in>set (devices db). ip_address d = a \<and> name d = n \<Longrightarrow>
     \<exists>d\<in>set (devices (update_device_online db now lat ip)). ip_address d = a \<and> name d = n"
  proof -
    fix a n assume "\<exists>d\<in>set (devices db). ip_address d = a \<and> name d = n"
    then obtain d where d: "d \<in> set (devices db)" "ip_address d = a" "name d = n" by blast
    let ?f = "\<lambda>d. if ip_address d = ip
                    then d\<lparr>status := ''online'', latency := lat, last_seen := now\<rparr> else d"
    have "?f d \<in> set (devices (update_device_online db now lat ip))"
      using d(1) by (simp add: update_device_online_def)
    moreover have "ip_address (?f d) = a" "name (?f d) = n" using d by auto
    ultimately show "\<exists>d\<in>set (devices (update_device_online db now lat ip)). ip_address d = a \<and> name d = n"
      by blast
  qed
  from assms show ?thesis unfolding seeded_def
    by (simp only: map_ip_update) (blast intro: keep)
qed

lemma seeded_append:
  assumes "seeded db" and "ip_address r \<notin> ip_address ` set (devices db)"
  shows "seeded (append_row db r)"
  using assms unfolding seeded_def by (auto simp: append_row_def)

lemma seeded_upsert:
  assumes "seeded db" and "update_or_add_device now ip lat db = Inr db'"
  shows "seeded db'"
proof (cases "ip \<in> set (map ip_address (devices db))")
  case True
  with assms(2) have "db' = update_device_online db now lat ip"
    by (simp add: update_or_add_known)
  with assms(1) show ?thesis by (simp add: seeded_update)
next
  case False
  from assms(2) update_or_add_unknown [OF False, of now lat]
  obtain r where "db' = append_row db r" "ip_address r = ip"
    by (auto simp: new_row_def)
  with False assms(1) show ?thesis by (simp add: seeded_append)
qed

lemma reachable_seeded: "reachable db \<Longrightarrow> seeded db"
proof (induction rule: reachable.induct)
  case (first_start now) show ?case by (rule seeded_fresh)
next
  case (restart db now)
  then show ?case
    using init_database_known [OF seeded_known, of db now] seeded_devices [of "init_database now db" db]
    by simp
next
  case (upsert db now ip lat db')
  then show ?case using seeded_upsert by blast
next
  case (registration db now nm ip loc)
  then show ?case
    using seeded_devices [of "fst (register_node now nm ip loc db)" db]
    by (simp add: register_node_def)
next
  case (heartbeat db affinity now node stats)
  then show ?case
    using seeded_devices [of "fst (raspberry_pi_heartbeat affinity now node stats db)" db]
    by (simp add: raspberry_pi_heartbeat_def Let_def)
next
  case (removal db affinity node)
  then show ?case
    using seeded_devices [of "fst (remove_raspberry_pi_node affinity node db)" db]
    by (simp add: remove_raspberry_pi_node_def)
qed

lemma listing_row:
  assumes "distinct (map ip_address (devices db))" and "d \<in> set (devices db)"
  shows "filter (\<lambda>x. ip_address x = ip_address d) (get_network_devices db) = [d]"
  using filter_ip_single [OF assms] by (simp add: get_network_devices_def filter_sort)

text \<open>
  Claim C10. In every store the application can reach, whatever was discovered,
  registered, reported or removed since the first start, the device listing has
  exactly one row for each of the addresses 192.168.1.1, 192.168.1.2 and 192.168.1.3,
  named Main Router, Network Switch and WiFi Access Point. Running the initialisation
  again adds no row and changes none: the listing and both tables are as before, and
  the only trace of the three skipped inserts is that the key counter of the table
  has advanced by three.
\<close>

theorem samples_survive_every_start:
  assumes "reachable db"
  shows "(\<exists>r1 r2 r3.
            filter (\<lambda>d. ip_address d = ''192.168.1.1'') (get_network_devices db) = [r1] \<and>
            name r1 = ''Main Router'' \<and>
            filter (\<lambda>d. ip_address d = ''192.168.1.2'') (get_network_devices db) = [r2] \<and>
            name r2 = ''Network Switch'' \<and>
            filter (\<lambda>d. ip_address d = ''192.168.1.3'') (get_network_devices db) = [r3] \<and>
            name r3 = ''WiFi Access Point'') \<and>
         init_database now db = db\<lparr>devices_seq := devices_seq db + 3\<rparr> \<and>
         devices (init_database now db) = devices db \<and>
         get_network_devices (init_database now db) = get_network_devices db"
proof -
  from assms have s: "seeded db" by (rule reachable_seeded)
  then have uniq: "distinct (map ip_address (devices db))" by (simp add: seeded_def)
  from s obtain r1 r2 r3 where
    r1: "r1 \<in> set (devices db)" "ip_address r1 = ''192.168.1.1''" "name r1 = ''Main Router''" and
    r2: "r2 \<in> set (devices db)" "ip_address r2 = ''192.168.1.2''" "name r2 = ''Network Switch''" and
    r3: "r3 \<in> set (devices db)" "ip_address r3 = ''192.168.1.3''" "name r3 = ''WiFi Access Point''"
    unfolding seeded_def by blast
  have "filter (\<lambda>d. ip_address d = ''192.168.1.1'') (get_network_devices db) = [r1]"
       "filter (\<lambda>d. ip_address d = ''192.168.1.2'') (get_network_devices db) = [r2]"
       "filter (\<lambda>d. ip_address d = ''192.168.1.3'') (get_network_devices db) = [r3]"
    using listing_row [OF uniq r1(1)] listing_row [OF uniq r2(1)] listing_row [OF uniq r3(1)]
    by (simp_all only: r1(2) r2(2) r3(2))
  moreover have again: "init_database now db = db\<lparr>devices_seq := devices_seq db + 3\<rparr>"
    by (rule init_database_known [OF seeded_known [OF s]])
  moreover from again have "devices (init_database now db) = devices db"
    "get_network_devices (init_database now db) = get_network_devices db"
    by (simp_all add: get_network_devices_def)
  ultimately show ?thesis using r1(3) r2(3) r3(3) by blast
qed

text \<open>
  A store reached by a first start, the registration of a node, a heartbeat of that
  node and the discovery of a gateway; the next start leaves its four device rows and
  its node as they are.
\<close>

theorem samples_survive_every_start_witness:
  "reachable
     (projr (update_or_add_device 30 ''10.0.0.1'' (Some 2)
        (fst (raspberry_pi_heartbeat decimal_affinity 20 ''1'' None
           (fst (register_node 10 ''pi-a'' ''10.0.0.50'' [] (init_database 0 empty_database))))))) \<and>
   map (\<lambda>d. (dev_id d, name d, ip_address d))
     (devices (init_database 60
        (projr (update_or_add_device 30 ''10.0.0.1'' (Some 2)
           (fst (raspberry_pi_heartbeat decimal_affinity 20 ''1'' None
              (fst (register_node 10 ''pi-a'' ''10.0.0.50'' []
                 (init_database 0 empty_database))))))))) =
     [(1, ''Main Router'', ''192.168.1.1''), (2, ''Network Switch'', ''192.168.1.2''),
      (3, ''WiFi Access Point'', ''192.168.1.3''), (4, ''Gateway 1'', ''10.0.0.1'')] \<and>
   devices_seq (init_database 60
        (projr (update_or_add_device 30 ''10.0.0.1'' (Some 2)
           (fst (raspberry_pi_heartbeat decimal_affinity 20 ''1'' None
              (fst (register_node 10 ''pi-a'' ''10.0.0.50'' []
                 (init_database 0 empty_database)))))))) = 7"
proof -
  let ?db1 = "fst (register_node 10 ''pi-a'' ''10.0.0.50'' [] (init_database 0 empty_database))"
  let ?db2 = "fst (raspberry_pi_heartbeat decimal_affinity 20 ''1'' None ?db1)"
  let ?row = "new_row ?db2 30 ''Gateway 1'' ''10.0.0.1'' None ''Router'' ''online'' (Some 2)"
  have d2: "devices ?db2 = devices (init_database 0 empty_database)"
    "devices_seq ?db2 = 3"
    by (simp_all add: raspberry_pi_heartbeat_def register_node_def Let_def init_database_def
        add_sample_data_def sample_devices_def insert_or_ignore_device_def append_row_def
        new_row_def empty_database_def)
  have "''10.0.0.1'' \<notin> set (map ip_address (devices ?db2))"
    by (simp add: d2 init_database_fresh)
  then have up: "update_or_add_device 30 ''10.0.0.1'' (Some 2) ?db2 = Inr (append_row ?db2 ?row)"
    using update_or_add_unknown [of "''10.0.0.1''" ?db2 30 "Some 2"]
    by (simp add: endswith_def str_split_def startswith_def)
  have r2: "reachable ?db2"
    by (intro reachable.heartbeat reachable.registration reachable.first_start)
  from r2 up have h: "reachable (projr (update_or_add_device 30 ''10.0.0.1'' (Some 2) ?db2))"
    using reachable.upsert [OF r2 up] by simp
  from samples_survive_every_start [OF h, of 60]
  have again: "init_database 60 (projr (update_or_add_device 30 ''10.0.0.1'' (Some 2) ?db2)) =
      (projr (update_or_add_device 30 ''10.0.0.1'' (Some 2) ?db2))
        \<lparr>devices_seq := devices_seq (projr (update_or_add_device 30 ''10.0.0.1'' (Some 2) ?db2)) + 3\<rparr>"
    by blast
  have rows: "map (\<lambda>d. (dev_id d, name d, ip_address d)) (devices (append_row ?db2 ?row)) =
     [(1, ''Main Router'', ''192.168.1.1''), (2, ''Network Switch'', ''192.168.1.2''),
      (3, ''WiFi Access Point'', ''192.168.1.3''), (4, ''Gateway 1'', ''10.0.0.1'')]"
    "devices_seq (append_row ?db2 ?row) = 4"
    by (simp_all add: append_row_def new_row_def d2 init_database_fresh)
  from h again rows up show ?thesis by simp
qed

subsection \<open>Heartbeats\<close>

lemma heartbeat_map_id:
  assumes "k \<notin> Some ` node_id ` set ns"
  shows "map (\<lambda>n. if k = Some (node_id n) then f n else n) ns = ns"
  using assms by (induction ns) auto

text \<open>
  Claim C8, as amended. The heartbeat handler always answers with success and status
  200, whether or not the node is registered. It touches nothing but the rows of
  \<^verbatim>\<open>raspberry_pi_nodes\<close> whose key equals the node identifier of the request: the
  table \<^verbatim>\<open>devices\<close> and both key counters are as before, the node table keeps its
  length and order, each row with that key is the old row marked online, stamped with
  the current time and holding the submitted statistics, and every other row is the
  old row. When no row has that key, the store is left exactly as it was: nothing is
  stored.
\<close>

theorem heartbeat_effect:
  "snd (raspberry_pi_heartbeat affinity now node stats db) = (True, 200) \<and>
   devices (fst (raspberry_pi_heartbeat affinity now node stats db)) = devices db \<and>
   devices_seq (fst (raspberry_pi_heartbeat affinity now node stats db)) = devices_seq db \<and>
   nodes_seq (fst (raspberry_pi_heartbeat affinity now node stats db)) = nodes_seq db \<and>
   length (raspberry_pi_nodes (fst (raspberry_pi_heartbeat affinity now node stats db))) =
     length (raspberry_pi_nodes db) \<and>
   (\<forall>i<length (raspberry_pi_nodes db).
      raspberry_pi_nodes (fst (raspberry_pi_heartbeat affinity now node stats db)) ! i =
        (if affinity node = Some (node_id (raspberry_pi_nodes db ! i))
         then (raspberry_pi_nodes db ! i)
                \<lparr>is_online := True, last_heartbeat := Some now,
                 system_stats := Some (case stats of Some s \<Rightarrow> s | None \<Rightarrow> ''{}'')\<rparr>
         else raspberry_pi_nodes db ! i)) \<and>
   (affinity node \<notin> Some ` node_id ` set (raspberry_pi_nodes db) \<longrightarrow>
      fst (raspberry_pi_heartbeat affinity now node stats db) = db)"
proof -
  have unreg: "fst (raspberry_pi_heartbeat affinity now node stats db) = db"
    if "affinity node \<notin> Some ` node_id ` set (raspberry_pi_nodes db)"
    using heartbeat_map_id [of "affinity node" "raspberry_pi_nodes db"] that
    by (simp add: raspberry_pi_heartbeat_def Let_def)
  show ?thesis using unreg by (simp add: raspberry_pi_heartbeat_def Let_def)
qed

text \<open>
  Two nodes are registered after the first start; a heartbeat for node 1 changes the
  row of node 1 and nothing else, and a heartbeat for node 7 changes nothing.
\<close>

theorem heartbeat_effect_witness:
  "decimal_affinity ''1'' = Some 1 \<and>
   raspberry_pi_heartbeat decimal_affinity 100 ''1'' (Some ''{}'')
     (fst (register_node 11 ''pi-b'' ''10.0.0.51'' []
        (fst (register_node 10 ''pi-a'' ''10.0.0.50'' [] (init_database 0 empty_database))))) =
   ((init_database 0 empty_database)
      \<lparr>raspberry_pi_nodes :=
         [\<lparr>node_id = 1, node_name = ''pi-a'', node_ip = ''10.0.0.50'', location = [],
           is_online = True, last_heartbeat = Some 100, system_stats = Some ''{}'',
           node_created_at = 10\<rparr>,
          \<lparr>node_id = 2, node_name = ''pi-b'', node_ip = ''10.0.0.51'', location = [],
           is_online = False, last_heartbeat = None, system_stats = None,
           node_created_at = 11\<rparr>],
       nodes_seq := 2\<rparr>, True, 200) \<and>
   decimal_affinity ''7'' = Some 7 \<and>
   fst (raspberry_pi_heartbeat decimal_affinity 100 ''7'' (Some ''{}'')
     (fst (register_node 11 ''pi-b'' ''10.0.0.51'' []
        (fst (register_node 10 ''pi-a'' ''10.0.0.50'' [] (init_database 0 empty_database)))))) =
   fst (register_node 11 ''pi-b'' ''10.0.0.51'' []
        (fst (register_node 10 ''pi-a'' ''10.0.0.50'' [] (init_database 0 empty_database))))"
proof -
  let ?db = "fst (register_node 11 ''pi-b'' ''10.0.0.51'' []
        (fst (register_node 10 ''pi-a'' ''10.0.0.50'' [] (init_database 0 empty_database))))"
  let ?r = "raspberry_pi_heartbeat decimal_affinity 100 ''1'' (Some ''{}'') ?db"
  have a: "decimal_affinity ''1'' = Some 1" by (simp add: decimal_affinity_def)
  have a7: "decimal_affinity ''7'' = Some 7" by (simp add: decimal_affinity_def)
  have db: "?db = (init_database 0 empty_database)
      \<lparr>raspberry_pi_nodes :=
         [\<lparr>node_id = 1, node_name = ''pi-a'', node_ip = ''10.0.0.50'', location = [],
           is_online = False, last_heartbeat = None, system_stats = None,
           node_created_at = 10\<rparr>,
          \<lparr>node_id = 2, node_name = ''pi-b'', node_ip = ''10.0.0.51'', location = [],
           is_online = False, last_heartbeat = None, system_stats = None,
           node_created_at = 11\<rparr>],
       nodes_seq := 2\<rparr>"
    by (simp add: register_node_def init_database_def add_sample_data_def sample_devices_def
        insert_or_ignore_device_def append_row_def new_row_def empty_database_def)
  note e = heartbeat_effect [of decimal_affinity 100 "''1''" "Some ''{}''" ?db]
  note nth = e [THEN conjunct2, THEN conjunct2, THEN conjunct2, THEN conjunct2, THEN conjunct2,
      THEN conjunct1, rule_format]
  from nth [of 0] have n0: "raspberry_pi_nodes (fst ?r) ! 0 =
      \<lparr>node_id = 1, node_name = ''pi-a'', node_ip = ''10.0.0.50'', location = [],
       is_online = True, last_heartbeat = Some 100, system_stats = Some ''{}'',
       node_created_at = 10\<rparr>"
    by (simp add: db a)
  from nth [of 1] have n1: "raspberry_pi_nodes (fst ?r) ! 1 =
      \<lparr>node_id = 2, node_name = ''pi-b'', node_ip = ''10.0.0.51'', location = [],
       is_online = False, last_heartbeat = None, system_stats = None, node_created_at = 11\<rparr>"
    by (simp add: db a)
  from e have len: "length (raspberry_pi_nodes (fst ?r)) = 2" by (simp add: db)
  have nodes: "raspberry_pi_nodes (fst ?r) =
      [\<lparr>node_id = 1, node_name = ''pi-a'', node_ip = ''10.0.0.50'', location = [],
        is_online = True, last_heartbeat = Some 100, system_stats = Some ''{}'',
        node_created_at = 10\<rparr>,
       \<lparr>node_id = 2, node_name = ''pi-b'', node_ip = ''10.0.0.51'', location = [],
        is_online = False, last_heartbeat = None, system_stats = None, node_created_at = 11\<rparr>]"
    using len n0 n1 by (intro nth_equalityI) (auto simp: less_Suc_eq numeral_2_eq_2)
  from e have rest: "snd ?r = (True, 200)" "devices (fst ?r) = devices (init_database 0 empty_database)"
    "devices_seq (fst ?r) = devices_seq (init_database 0 empty_database)" "nodes_seq (fst ?r) = 2"
    by (simp_all add: db)
  have "fst ?r = (init_database 0 empty_database)
      \<lparr>raspberry_pi_nodes :=
         [\<lparr>node_id = 1, node_name = ''pi-a'', node_ip = ''10.0.0.50'', location = [],
           is_online = True, last_heartbeat = Some 100, system_stats = Some ''{}'',
           node_created_at = 10\<rparr>,
          \<lparr>node_id = 2, node_name = ''pi-b'', node_ip = ''10.0.0.51'', location = [],
           is_online = False, last_heartbeat = None, system_stats = None,
           node_created_at = 11\<rparr>],
       nodes_seq := 2\<rparr>"
    using nodes rest by (intro database.equality) simp_all
  with rest(1) have registered: "?r = ((init_database 0 empty_database)
      \<lparr>raspberry_pi_nodes :=
         [\<lparr>node_id = 1, node_name = ''pi-a'', node_ip = ''10.0.0.50'', location = [],
           is_online = True, last_heartbeat = Some 100, system_stats = Some ''{}'',
           node_created_at = 10\<rparr>,
          \<lparr>node_id = 2, node_name = ''pi-b'', node_ip = ''10.0.0.51'', location = [],
           is_online = False, last_heartbeat = None, system_stats = None,
           node_created_at = 11\<rparr>],
       nodes_seq := 2\<rparr>, True, 200)"
    by (simp add: prod_eq_iff)
  have "decimal_affinity ''7'' \<notin> Some ` node_id ` set (raspberry_pi_nodes ?db)"
    by (simp add: db a7)
  with heartbeat_effect [of decimal_affinity 100 "''7''" "Some ''{}''" ?db]
  have unregistered: "fst (raspberry_pi_heartbeat decimal_affinity 100 ''7'' (Some ''{}'') ?db) = ?db"
    by blast
  from registered unregistered a a7 show ?thesis by (simp only: simp_thms)
qed

text \<open>
  Claim C8 as stated fails: with one node registered under key 1, a heartbeat for node
  7 is answered with success, and the table afterwards is the table before; the
  heartbeat is not stored anywhere.
\<close>

theorem heartbeat_unregistered_counterexample:
  "raspberry_pi_heartbeat decimal_affinity 100 ''7'' (Some ''{}'')
     (fst (register_node 1 ''pi-a'' ''10.0.0.50'' [] empty_database)) =
   (\<lparr>devices = [], devices_seq = 0,
     raspberry_pi_nodes =
       [\<lparr>node_id = 1, node_name = ''pi-a'', node_ip = ''10.0.0.50'', location = [],
         is_online = False, last_heartbeat = None, system_stats = None, node_created_at = 1\<rparr>],
     nodes_seq = 1\<rparr>, True, 200)"
  by (simp add: raspberry_pi_heartbeat_def register_node_def empty_database_def decimal_affinity_def)

subsection \<open>Probing a host\<close>

lemma scan_lines_first:
  "scan_lines float lines =
     (case List.map_filter (parse_time float) (filter (str_in ''time='') lines) of
        [] \<Rightarrow> None
      | ms # _ \<Rightarrow> Some ms)"
  by (induction lines) (auto simp: List.map_filter_simps split: option.splits)

lemmas example_net_defs =
  example_net_def ping_host_def ping_method1_def ping_method2_def ping_method3_def
  ping_method4_def urlopen_def

text \<open>
  Claim C2, as amended. For every target that standard output can encode, and every
  attempt count, \<^verbatim>\<open>ping_host\<close> does not raise: it returns a pair. It returns
  \<open>(False, None)\<close> exactly when either the ping utility ran and exited with a code
  other than zero (no later strategy is then tried), or the ping utility could not
  be run and each later strategy failed: the TCP connect raised, or returned a
  non-zero code and the raw send raised; the name did not resolve; the HTTP request
  raised. In particular, when every strategy fails, the result is \<open>(False, None)\<close>.
\<close>

theorem ping_host_fails_iff:
  assumes "stdout_encodes w target"
  shows "(\<exists>r. ping_host w target count = Inr r) \<and>
         (ping_host w target count = Inr (False, None)) =
           (case run w (ping_command w target count) of
              Inr result \<Rightarrow> returncode result \<noteq> 0
            | Inl e \<Rightarrow>
                (case connect_ex w target of
                   Inl e \<Rightarrow> True
                 | Inr code \<Rightarrow> code \<noteq> 0 \<and> raw_sendto w target \<noteq> None) \<and>
                gethostbyname w target \<noteq> None \<and>
                isl (urlopen w (''http://'' @ target))) \<and>
         (every_strategy_fails w target count \<longrightarrow>
            ping_host w target count = Inr (False, None))"
  using assms
  by (auto simp: ping_host_def ping_method1_def ping_method2_def ping_method3_def
      ping_method4_def print_target_def every_strategy_fails_def Let_def
      split: sum.splits option.splits)

theorem ping_host_fails_iff_witness:
  "stdout_encodes dead_net ''10.9.9.9'' \<and>
   every_strategy_fails dead_net ''10.9.9.9'' 3 \<and>
   ping_host dead_net ''10.9.9.9'' 3 = Inr (False, None)"
proof -
  have p: "stdout_encodes dead_net ''10.9.9.9''"
    by (simp add: dead_net_def example_net_def)
  have h: "every_strategy_fails dead_net ''10.9.9.9'' 3"
    by (simp add: every_strategy_fails_def dead_net_def example_net_def urlopen_def)
  show ?thesis using p h ping_host_fails_iff [OF p, of 3] by simp
qed

text \<open>
  Claim C2 as stated fails in the direction "only when": for a host that drops ICMP
  and serves HTTP, the ping utility exits with 1 and \<^verbatim>\<open>ping_host\<close> returns
  \<open>(False, None)\<close> at once, although the TCP connect to port 80 returns zero and the
  name resolves.
\<close>

theorem ping_host_short_circuit_counterexample:
  "ping_host icmp_filtered_net ''10.0.0.9'' 3 = Inr (False, None) \<and>
   connect_ex icmp_filtered_net ''10.0.0.9'' = Inr 0 \<and>
   gethostbyname icmp_filtered_net ''10.0.0.9'' = None \<and>
   \<not> every_strategy_fails icmp_filtered_net ''10.0.0.9'' 3"
  by (simp add: icmp_filtered_net_def example_net_defs every_strategy_fails_def)

text \<open>
  Where standard output cannot encode the target, the handler of the first failing
  method raises while it reports the failure, and the exception leaves
  \<^verbatim>\<open>ping_host\<close>: here the target holds a character outside ASCII, the ping command
  cannot be run with it, and the report of that cannot be printed.
\<close>

lemma ping_host_raises_unprintable:
  "ping_host ascii_stdout_net [CHR 0xE9, CHR ''t'', CHR ''a'', CHR ''t''] 3 = Inl UnicodeEncodeError \<and>
   ping_host ascii_stdout_net ''etat'' 3 = Inr (False, None)"
  by (simp add: ascii_stdout_net_def dead_net_def ascii_text_def example_net_defs print_target_def
      ping_command_def str_words_def is_space_def str_lower_def str_int_def)

text \<open>
  Claim C4, as amended. When the three earlier methods have yielded nothing, the
  result is that of the HTTP request: success with the rounded elapsed time when the
  exchange ends with a 2xx status, and \<open>(False, None)\<close> for every other status and
  when no response arrives.
\<close>

theorem http_fallback:
  assumes "ping_method1 w target count = Inr None"
      and "ping_method2 w target = Inr None"
      and "ping_method3 w target = Inr None"
  shows "ping_host w target count =
           Inr (case http_exchange w (''http://'' @ target) of
                  Inr code \<Rightarrow>
                    if 200 \<le> code \<and> code < 300 then (True, Some (round1 (http_ms w target)))
                    else (False, None)
                | Inl e \<Rightarrow> (False, None))"
  using assms
  by (simp add: ping_host_def ping_method4_def urlopen_def split: sum.splits)

theorem http_fallback_witness:
  "ping_method1 proxy_200_net ''intranet'' 3 = Inr None \<and>
   ping_method2 proxy_200_net ''intranet'' = Inr None \<and>
   ping_method3 proxy_200_net ''intranet'' = Inr None \<and>
   ping_host proxy_200_net ''intranet'' 3 = Inr (True, Some 40)"
proof -
  have h1: "ping_method1 proxy_200_net ''intranet'' 3 = Inr None"
    by (simp add: proxy_200_net_def example_net_defs print_target_def)
  have h2: "ping_method2 proxy_200_net ''intranet'' = Inr None"
    by (simp add: proxy_200_net_def example_net_defs print_target_def)
  have h3: "ping_method3 proxy_200_net ''intranet'' = Inr None"
    by (simp add: proxy_200_net_def example_net_defs print_target_def)
  have r: "round1 40 = 40" by (simp add: round1_def round_half_even_def)
  show ?thesis using h1 h2 h3 http_fallback [OF h1 h2 h3]
    by (simp add: proxy_200_net_def example_net_def r)
qed

text \<open>
  Claim C4 as stated fails: with the earlier methods exhausted and the HTTP exchange
  completed with status 404, the result is \<open>(False, None)\<close>.
\<close>

theorem http_fallback_404_counterexample:
  "ping_method1 proxy_404_net ''intranet'' 3 = Inr None \<and>
   ping_method2 proxy_404_net ''intranet'' = Inr None \<and>
   ping_method3 proxy_404_net ''intranet'' = Inr None \<and>
   http_exchange proxy_404_net ''http://intranet'' = Inr 404 \<and>
   ping_host proxy_404_net ''intranet'' 3 = Inr (False, None)"
  by (simp add: proxy_404_net_def example_net_defs print_target_def)

text \<open>
  Claim C7, as amended. When the ping utility exits with zero, \<^verbatim>\<open>ping_host\<close> returns
  success. If the output contains \<^verbatim>\<open>time=\<close>, the latency is read from the first line
  that contains \<^verbatim>\<open>time=\<close> and whose field (the text between the line's first
  \<^verbatim>\<open>time=\<close> and the next \<^verbatim>\<open>ms\<close>) parses as a float; a line whose field does not
  parse is skipped. The latency is \<open>None\<close> when no line parses, and when the output
  has no \<^verbatim>\<open>time=\<close>.
\<close>

theorem ping_exit_zero:
  assumes "run w (ping_command w target count) = Inr result" and "returncode result = 0"
  shows "ping_host w target count =
           Inr (True,
                if str_in ''time='' (stdout result)
                then (case List.map_filter (parse_time (pyfloat w))
                             (filter (str_in ''time='') (str_split (stdout result) [CHR 0x0A])) of
                        [] \<Rightarrow> None
                      | ms # _ \<Rightarrow> Some ms)
                else None)"
  using assms by (simp add: ping_host_def ping_method1_def Let_def scan_lines_first)

lemmas string_defs =
  str_split_def startswith_def str_words_def is_space_def str_lower_def str_strip_def
  index_def str_int_def

theorem ping_exit_zero_witness:
  "run (answering_net ''64 bytes from 10.0.0.1: icmp_seq=1 ttl=64 time=0.5 ms'')
     (ping_command (answering_net ''64 bytes from 10.0.0.1: icmp_seq=1 ttl=64 time=0.5 ms'')
        ''10.0.0.1'' 3) =
     Inr \<lparr>returncode = 0, stdout = ''64 bytes from 10.0.0.1: icmp_seq=1 ttl=64 time=0.5 ms''\<rparr> \<and>
   ping_host (answering_net ''64 bytes from 10.0.0.1: icmp_seq=1 ttl=64 time=0.5 ms'')
     ''10.0.0.1'' 3 = Inr (True, Some (1 / 2))"
proof -
  let ?out = "''64 bytes from 10.0.0.1: icmp_seq=1 ttl=64 time=0.5 ms''"
  let ?w = "answering_net ?out"
  have h: "run ?w (ping_command ?w ''10.0.0.1'' 3) = Inr \<lparr>returncode = 0, stdout = ?out\<rparr>"
    by (simp add: answering_net_def example_net_def)
  have p: "parse_time decimal_float ?out = Some (1 / 2)"
    by (simp add: parse_time_def string_defs decimal_float_def Let_def)
  have f: "pyfloat ?w = decimal_float" by (simp add: answering_net_def example_net_def)
  show ?thesis using h ping_exit_zero [OF h]
    by (simp add: f p List.map_filter_simps string_defs)
qed

text \<open>
  Claim C7 as stated fails: the first \<^verbatim>\<open>time=\<close> field of the output does not parse
  (a decimal comma), the second line's does, and the result is the second line's
  latency, not \<open>None\<close>.
\<close>

theorem ping_parse_skips_line_counterexample:
  "parse_time decimal_float ''time=0,5 ms'' = None \<and>
   ping_host (answering_net (''time=0,5 ms'' @ [CHR 0x0A] @ ''time=12 ms'')) ''10.0.0.1'' 3 =
     Inr (True, Some 12)"
  by (simp add: answering_net_def example_net_defs parse_time_def string_defs decimal_float_def
      Let_def)

subsection \<open>The discovery sweep\<close>

lemma split_go_nonempty: "split_go sep k piece s \<noteq> []"
  by (induction sep k piece s rule: split_go.induct) auto

lemma split_go_no_sep:
  "c \<notin> set t \<Longrightarrow> split_go [c] 0 piece t = [piece @ t]"
  by (induction t arbitrary: piece) (auto simp: startswith_def)

lemma split_go_last:
  "c \<notin> set t \<Longrightarrow> last (split_go [c] 0 piece (s @ c # t)) = t"
proof (induction s arbitrary: piece)
  case Nil
  then show ?case by (simp add: startswith_def split_go_no_sep)
next
  case (Cons x xs)
  from Cons show ?case by (simp add: startswith_def split_go_nonempty)
qed

lemma last_split_suffix:
  "CHR ''.'' \<notin> set t \<Longrightarrow> last (str_split (s @ CHR ''.'' # t) ''.'') = t"
  by (simp add: str_split_def split_go_last)

lemma endswith_short:
  "length p \<le> length q \<Longrightarrow> endswith (s @ q) p = endswith q p"
  by (simp add: endswith_def)

lemma endswith_last:
  "p \<noteq> [] \<Longrightarrow> q \<noteq> [] \<Longrightarrow> last p \<noteq> last q \<Longrightarrow> \<not> endswith (s @ q) p"
proof
  assume a: "p \<noteq> []" "q \<noteq> []" "last p \<noteq> last q" "endswith (s @ q) p"
  define k where "k = length (s @ q) - length p"
  from a(4) have d: "drop k (s @ q) = p" and le: "length p \<le> length (s @ q)"
    by (simp_all add: endswith_def k_def)
  from a(1) le have "k < length (s @ q)" by (cases p) (simp_all add: k_def)
  then have "last (drop k (s @ q)) = last (s @ q)" by (rule last_drop)
  with d have "last p = last (s @ q)" by (simp only:)
  with a(2) a(3) show False by simp
qed

lemma new_device_naming:
  assumes "n \<in> set common_ips"
      and "subnet @ ''.'' @ str_nat n \<notin> ip_address ` set (devices db)"
  shows "update_or_add_device now (subnet @ ''.'' @ str_nat n) ms db =
           Inr (append_row db
                  (new_row db now
                     ((if n = 1 \<or> n = 254 then ''Gateway '' else ''Device '') @ str_nat n)
                     (subnet @ ''.'' @ str_nat n) None
                     (if n = 1 \<or> n = 254 then ''Router'' else ''Network Device'')
                     ''online'' ms))"
proof -
  from assms(1) consider "n = 1" | "n = 254" | "n = 100" | "n = 101" | "n = 102"
    by (auto simp: common_ips_def)
  then show ?thesis
  proof cases
    case 1
    with assms(2) show ?thesis
      using last_split_suffix [of "''1''" subnet] endswith_short [of "''.1''" "''.1''" subnet]
      by (simp add: update_or_add_unknown endswith_def)
  next
    case 2
    with assms(2) show ?thesis
      using last_split_suffix [of "''254''" subnet] endswith_short [of "''.254''" "''.254''" subnet]
      by (simp add: update_or_add_unknown endswith_def)
  next
    case 3
    with assms(2) show ?thesis
      using last_split_suffix [of "''100''" subnet]
        endswith_last [of "''.1''" "''.100''" subnet] endswith_last [of "''.254''" "''.100''" subnet]
      by (simp add: update_or_add_unknown)
  next
    case 4
    with assms(2) show ?thesis
      using last_split_suffix [of "''101''" subnet]
        endswith_short [of "''.1''" "''.101''" subnet] endswith_last [of "''.254''" "''.101''" subnet]
      by (simp add: update_or_add_unknown endswith_def)
  next
    case 5
    with assms(2) show ?thesis
      using last_split_suffix [of "''102''" subnet]
        endswith_last [of "''.1''" "''.102''" subnet] endswith_last [of "''.254''" "''.102''" subnet]
      by (simp add: update_or_add_unknown)
  qed
qed

text \<open>
  Claim C6, as amended. In a sweep of one subnet in which the hosts with suffix 1 and
  254 answer and those with suffix 100, 101 and 102 do not, and in which neither
  answering address is in the table yet, exactly two rows are appended, in this
  order: Gateway 1 and Gateway 254, both of type Router and online, with the measured
  latencies; no exception ends the sweep. In general, for each of the five probed
  suffixes, an address that is not in the table yet gets the name Gateway and the
  suffix, with type Router, when the suffix is 1 or 254, and the name Device and the
  suffix, with type Network Device, otherwise.
\<close>

theorem sweep_creates_two_gateways:
  assumes unknown1: "subnet @ ''.1'' \<notin> ip_address ` set (devices db)"
      and unknown254: "subnet @ ''.254'' \<notin> ip_address ` set (devices db)"
      and up1: "ping_host w (subnet @ ''.1'') 1 = Inr (True, ms1)"
      and up254: "ping_host w (subnet @ ''.254'') 1 = Inr (True, ms254)"
      and down100: "ping_host w (subnet @ ''.100'') 1 = Inr (False, ms100)"
      and down101: "ping_host w (subnet @ ''.101'') 1 = Inr (False, ms101)"
      and down102: "ping_host w (subnet @ ''.102'') 1 = Inr (False, ms102)"
  shows "scan_subnet w clk subnet common_ips db =
           (db\<lparr>devices := devices db @
                  [\<lparr>dev_id = devices_seq db + 1, name = ''Gateway 1'',
                    ip_address = subnet @ ''.1'', mac_address = None, device_type = ''Router'',
                    status = ''online'', last_seen = clk (subnet @ ''.1''), latency = ms1,
                    created_at = clk (subnet @ ''.1'')\<rparr>,
                   \<lparr>dev_id = devices_seq db + 2, name = ''Gateway 254'',
                    ip_address = subnet @ ''.254'', mac_address = None, device_type = ''Router'',
                    status = ''online'', last_seen = clk (subnet @ ''.254''), latency = ms254,
                    created_at = clk (subnet @ ''.254'')\<rparr>],
                devices_seq := devices_seq db + 2\<rparr>, None) \<and>
         (\<forall>n\<in>set common_ips.
            subnet @ ''.'' @ str_nat n \<notin> ip_address ` set (devices db0) \<longrightarrow>
            update_or_add_device now (subnet @ ''.'' @ str_nat n) ms db0 =
              Inr (append_row db0
                     (new_row db0 now
                        ((if n = 1 \<or> n = 254 then ''Gateway '' else ''Device '') @ str_nat n)
                        (subnet @ ''.'' @ str_nat n) None
                        (if n = 1 \<or> n = 254 then ''Router'' else ''Network Device'')
                        ''online'' ms)))"
proof -
  let ?r1 = "new_row db (clk (subnet @ ''.1'')) ''Gateway 1'' (subnet @ ''.1'') None ''Router''
               ''online'' ms1"
  let ?db1 = "append_row db ?r1"
  have s1: "update_or_add_device (clk (subnet @ ''.1'')) (subnet @ ''.1'') ms1 db = Inr ?db1"
    using new_device_naming [of 1 subnet db "clk (subnet @ ''.1'')" ms1] unknown1
    by (simp add: common_ips_def)
  have "subnet @ ''.254'' \<notin> ip_address ` set (devices ?db1)"
    using unknown254 by (simp add: append_row_def new_row_def)
  then have s2: "update_or_add_device (clk (subnet @ ''.254'')) (subnet @ ''.254'') ms254 ?db1 =
      Inr (append_row ?db1 (new_row ?db1 (clk (subnet @ ''.254'')) ''Gateway 254''
             (subnet @ ''.254'') None ''Router'' ''online'' ms254))"
    using new_device_naming [of 254 subnet ?db1 "clk (subnet @ ''.254'')" ms254]
    by (simp add: common_ips_def)
  have sweep: "scan_subnet w clk subnet common_ips db =
      (append_row ?db1 (new_row ?db1 (clk (subnet @ ''.254'')) ''Gateway 254''
             (subnet @ ''.254'') None ''Router'' ''online'' ms254), None)"
    using up1 up254 down100 down101 down102 s1 s2
    by (simp add: common_ips_def Let_def)
  have naming: "\<forall>n\<in>set common_ips.
            subnet @ ''.'' @ str_nat n \<notin> ip_address ` set (devices db0) \<longrightarrow>
            update_or_add_device now (subnet @ ''.'' @ str_nat n) ms db0 =
              Inr (append_row db0
                     (new_row db0 now
                        ((if n = 1 \<or> n = 254 then ''Gateway '' else ''Device '') @ str_nat n)
                        (subnet @ ''.'' @ str_nat n) None
                        (if n = 1 \<or> n = 254 then ''Router'' else ''Network Device'')
                        ''online'' ms))"
    using new_device_naming by blast
  from sweep have "scan_subnet w clk subnet common_ips db =
           (db\<lparr>devices := devices db @
                  [\<lparr>dev_id = devices_seq db + 1, name = ''Gateway 1'',
                    ip_address = subnet @ ''.1'', mac_address = None, device_type = ''Router'',
                    status = ''online'', last_seen = clk (subnet @ ''.1''), latency = ms1,
                    created_at = clk (subnet @ ''.1'')\<rparr>,
                   \<lparr>dev_id = devices_seq db + 2, name = ''Gateway 254'',
                    ip_address = subnet @ ''.254'', mac_address = None, device_type = ''Router'',
                    status = ''online'', last_seen = clk (subnet @ ''.254''), latency = ms254,
                    created_at = clk (subnet @ ''.254'')\<rparr>],
                devices_seq := devices_seq db + 2\<rparr>, None)"
    by (simp add: append_row_def new_row_def)
  with naming show ?thesis by blast
qed

lemmas ping_eval_defs =
  example_net_defs ping_command_def string_defs parse_time_def decimal_float_def Let_def

lemma gateways_net_up:
  "ping_host (gateways_net ''10.0.0'') ''10.0.0.1'' 1 = Inr (True, Some (3 / 2))"
  "ping_host (gateways_net ''10.0.0'') ''10.0.0.254'' 1 = Inr (True, Some (3 / 2))"
  by (simp_all add: gateways_net_def ping_eval_defs)

lemma gateways_net_down:
  "ping_host (gateways_net ''10.0.0'') ''10.0.0.100'' 1 = Inr (False, None)"
  "ping_host (gateways_net ''10.0.0'') ''10.0.0.101'' 1 = Inr (False, None)"
  "ping_host (gateways_net ''10.0.0'') ''10.0.0.102'' 1 = Inr (False, None)"
  by (simp_all add: gateways_net_def ping_eval_defs)

theorem sweep_creates_two_gateways_witness:
  "''10.0.0.1'' \<notin> ip_address ` set (devices (init_database 0 empty_database)) \<and>
   ''10.0.0.254'' \<notin> ip_address ` set (devices (init_database 0 empty_database)) \<and>
   ping_host (gateways_net ''10.0.0'') ''10.0.0.1'' 1 = Inr (True, Some (3 / 2)) \<and>
   ping_host (gateways_net ''10.0.0'') ''10.0.0.254'' 1 = Inr (True, Some (3 / 2)) \<and>
   ping_host (gateways_net ''10.0.0'') ''10.0.0.100'' 1 = Inr (False, None) \<and>
   ping_host (gateways_net ''10.0.0'') ''10.0.0.101'' 1 = Inr (False, None) \<and>
   ping_host (gateways_net ''10.0.0'') ''10.0.0.102'' 1 = Inr (False, None) \<and>
   map (\<lambda>d. (dev_id d, name d, ip_address d, device_type d, status d, latency d))
     (devices (fst (scan_subnet (gateways_net ''10.0.0'') (\<lambda>ip. 60) ''10.0.0'' common_ips
        (init_database 0 empty_database)))) =
     [(1, ''Main Router'', ''192.168.1.1'', ''Router'', ''online'', Some (152 / 10)),
      (2, ''Network Switch'', ''192.168.1.2'', ''Switch'', ''online'', Some (85 / 10)),
      (3, ''WiFi Access Point'', ''192.168.1.3'', ''Access Point'', ''warning'', Some (251 / 10)),
      (4, ''Gateway 1'', ''10.0.0.1'', ''Router'', ''online'', Some (3 / 2)),
      (5, ''Gateway 254'', ''10.0.0.254'', ''Router'', ''online'', Some (3 / 2))] \<and>
   update_or_add_device 7 ''10.0.0.100'' None empty_database =
     Inr \<lparr>devices =
           [\<lparr>dev_id = 1, name = ''Device 100'', ip_address = ''10.0.0.100'', mac_address = None,
             device_type = ''Network Device'', status = ''online'', last_seen = 7,
             latency = None, created_at = 7\<rparr>],
          devices_seq = 1, raspberry_pi_nodes = [], nodes_seq = 0\<rparr>"
proof -
  let ?db = "init_database 0 empty_database"
  have fresh: "devices ?db = devices ?db" ..
  have u1: "''10.0.0'' @ ''.1'' \<notin> ip_address ` set (devices ?db)"
    by (simp add: init_database_fresh)
  have u254: "''10.0.0'' @ ''.254'' \<notin> ip_address ` set (devices ?db)"
    by (simp add: init_database_fresh)
  have p1: "ping_host (gateways_net ''10.0.0'') (''10.0.0'' @ ''.1'') 1 = Inr (True, Some (3 / 2))"
    using gateways_net_up(1) by simp
  have p254: "ping_host (gateways_net ''10.0.0'') (''10.0.0'' @ ''.254'') 1 = Inr (True, Some (3 / 2))"
    using gateways_net_up(2) by simp
  have d100: "ping_host (gateways_net ''10.0.0'') (''10.0.0'' @ ''.100'') 1 = Inr (False, None)"
    using gateways_net_down(1) by simp
  have d101: "ping_host (gateways_net ''10.0.0'') (''10.0.0'' @ ''.101'') 1 = Inr (False, None)"
    using gateways_net_down(2) by simp
  have d102: "ping_host (gateways_net ''10.0.0'') (''10.0.0'' @ ''.102'') 1 = Inr (False, None)"
    using gateways_net_down(3) by simp
  note sw = sweep_creates_two_gateways [OF u1 u254 p1 p254 d100 d101 d102,
      of "\<lambda>ip. 60" empty_database 7 None]
  from sw have sweep: "map (\<lambda>d. (dev_id d, name d, ip_address d, device_type d, status d, latency d))
     (devices (fst (scan_subnet (gateways_net ''10.0.0'') (\<lambda>ip. 60) ''10.0.0'' common_ips ?db))) =
     [(1, ''Main Router'', ''192.168.1.1'', ''Router'', ''online'', Some (152 / 10)),
      (2, ''Network Switch'', ''192.168.1.2'', ''Switch'', ''online'', Some (85 / 10)),
      (3, ''WiFi Access Point'', ''192.168.1.3'', ''Access Point'', ''warning'', Some (251 / 10)),
      (4, ''Gateway 1'', ''10.0.0.1'', ''Router'', ''online'', Some (3 / 2)),
      (5, ''Gateway 254'', ''10.0.0.254'', ''Router'', ''online'', Some (3 / 2))]"
    by (simp add: init_database_def add_sample_data_def sample_devices_def
        insert_or_ignore_device_def append_row_def new_row_def empty_database_def)
  from sw have "100 \<in> set common_ips \<longrightarrow>
      ''10.0.0'' @ ''.'' @ str_nat 100 \<notin> ip_address ` set (devices empty_database) \<longrightarrow>
      update_or_add_device 7 (''10.0.0'' @ ''.'' @ str_nat 100) None empty_database =
        Inr (append_row empty_database
               (new_row empty_database 7
                  ((if (100::nat) = 1 \<or> (100::nat) = 254 then ''Gateway '' else ''Device '') @ str_nat 100)
                  (''10.0.0'' @ ''.'' @ str_nat 100) None
                  (if (100::nat) = 1 \<or> (100::nat) = 254 then ''Router'' else ''Network Device'')
                  ''online'' None))"
    by blast
  then have naming: "update_or_add_device 7 ''10.0.0.100'' None empty_database =
     Inr \<lparr>devices =
           [\<lparr>dev_id = 1, name = ''Device 100'', ip_address = ''10.0.0.100'', mac_address = None,
             device_type = ''Network Device'', status = ''online'', last_seen = 7,
             latency = None, created_at = 7\<rparr>],
          devices_seq = 1, raspberry_pi_nodes = [], nodes_seq = 0\<rparr>"
    by (simp add: common_ips_def empty_database_def append_row_def new_row_def)
  from u1 u254 gateways_net_up gateways_net_down sweep naming show ?thesis by simp
qed

lemma example_local_nets:
  "local_nets [(''lo'', [\<lparr>family = AF_INET, address = ''127.0.0.1'', netmask = ''255.0.0.0''\<rparr>]),
             (''eth0'', [\<lparr>family = AF_INET, address = ''192.168.1.50'',
                          netmask = ''255.255.255.0''\<rparr>])] = Inr [''192.168.1'']"
  by (simp add: string_defs Let_def)

text \<open>
  Claim C6 as stated fails for the subnet of the seeded samples: right after start-up
  the table already holds 192.168.1.1 as Main Router, so a sweep of 192.168.1 in which
  only the suffixes 1 and 254 answer creates one row, Gateway 254, and no Gateway 1.
  The same holds for the whole discovery on a host whose interface is in that subnet.
\<close>

theorem sweep_seeded_subnet_counterexample:
  "ping_host (gateways_net ''192.168.1'') ''192.168.1.1'' 1 = Inr (True, Some (3 / 2)) \<and>
   ping_host (gateways_net ''192.168.1'') ''192.168.1.254'' 1 = Inr (True, Some (3 / 2)) \<and>
   ping_host (gateways_net ''192.168.1'') ''192.168.1.100'' 1 = Inr (False, None) \<and>
   ping_host (gateways_net ''192.168.1'') ''192.168.1.101'' 1 = Inr (False, None) \<and>
   ping_host (gateways_net ''192.168.1'') ''192.168.1.102'' 1 = Inr (False, None) \<and>
   map (\<lambda>d. (dev_id d, name d, ip_address d, device_type d))
     (devices (fst (scan_subnet (gateways_net ''192.168.1'') (\<lambda>ip. 60) ''192.168.1'' common_ips
        (init_database 0 empty_database)))) =
     [(1, ''Main Router'', ''192.168.1.1'', ''Router''),
      (2, ''Network Switch'', ''192.168.1.2'', ''Switch''),
      (3, ''WiFi Access Point'', ''192.168.1.3'', ''Access Point''),
      (4, ''Gateway 254'', ''192.168.1.254'', ''Router'')] \<and>
   map name
     (devices (discover_network_devices (gateways_net ''192.168.1'') (\<lambda>ip. 60)
        (init_database 0 empty_database))) =
     [''Main Router'', ''Network Switch'', ''WiFi Access Point'', ''Gateway 254'']"
proof -
  have up: "ping_host (gateways_net ''192.168.1'') ''192.168.1.1'' 1 = Inr (True, Some (3 / 2))"
    "ping_host (gateways_net ''192.168.1'') ''192.168.1.254'' 1 = Inr (True, Some (3 / 2))"
    by (simp_all add: gateways_net_def ping_eval_defs)
  have down: "ping_host (gateways_net ''192.168.1'') ''192.168.1.100'' 1 = Inr (False, None)"
    "ping_host (gateways_net ''192.168.1'') ''192.168.1.101'' 1 = Inr (False, None)"
    "ping_host (gateways_net ''192.168.1'') ''192.168.1.102'' 1 = Inr (False, None)"
    by (simp_all add: gateways_net_def ping_eval_defs)
  have known: "update_or_add_device 60 ''192.168.1.1'' (Some (3 / 2)) (init_database 0 empty_database) =
      Inr (update_device_online (init_database 0 empty_database) 60 (Some (3 / 2)) ''192.168.1.1'')"
    by (rule update_or_add_known) (simp add: init_database_fresh)
  have new: "update_or_add_device 60 ''192.168.1.254'' (Some (3 / 2))
        (update_device_online (init_database 0 empty_database) 60 (Some (3 / 2)) ''192.168.1.1'') =
      Inr (append_row (update_device_online (init_database 0 empty_database) 60 (Some (3 / 2)) ''192.168.1.1'')
        (new_row (update_device_online (init_database 0 empty_database) 60 (Some (3 / 2)) ''192.168.1.1'')
           60 ''Gateway 254'' ''192.168.1.254'' None ''Router'' ''online'' (Some (3 / 2))))"
    using new_device_naming [of 254 "''192.168.1''"
        "update_device_online (init_database 0 empty_database) 60 (Some (3 / 2)) ''192.168.1.1''"
        60 "Some (3 / 2)"]
    by (simp add: common_ips_def set_ip_update init_database_fresh)
  have "scan_subnet (gateways_net ''192.168.1'') (\<lambda>ip. 60) ''192.168.1'' common_ips
        (init_database 0 empty_database) =
      (append_row (update_device_online (init_database 0 empty_database) 60 (Some (3 / 2)) ''192.168.1.1'')
        (new_row (update_device_online (init_database 0 empty_database) 60 (Some (3 / 2)) ''192.168.1.1'')
           60 ''Gateway 254'' ''192.168.1.254'' None ''Router'' ''online'' (Some (3 / 2))), None)"
    using up down known new by (simp add: common_ips_def Let_def)
  then have sweep: "scan_subnet (gateways_net ''192.168.1'') (\<lambda>ip. 60) ''192.168.1'' common_ips
        (init_database 0 empty_database) =
      (\<lparr>devices =
          [\<lparr>dev_id = 1, name = ''Main Router'', ip_address = ''192.168.1.1'',
            mac_address = Some ''00:11:22:33:44:55'', device_type = ''Router'',
            status = ''online'', last_seen = 60, latency = Some (3 / 2), created_at = 0\<rparr>,
           \<lparr>dev_id = 2, name = ''Network Switch'', ip_address = ''192.168.1.2'',
            mac_address = Some ''00:11:22:33:44:56'', device_type = ''Switch'',
            status = ''online'', last_seen = 0, latency = Some (85 / 10), created_at = 0\<rparr>,
           \<lparr>dev_id = 3, name = ''WiFi Access Point'', ip_address = ''192.168.1.3'',
            mac_address = Some ''00:11:22:33:44:57'', device_type = ''Access Point'',
            status = ''warning'', last_seen = 0, latency = Some (251 / 10), created_at = 0\<rparr>,
           \<lparr>dev_id = 4, name = ''Gateway 254'', ip_address = ''192.168.1.254'',
            mac_address = None, device_type = ''Router'', status = ''online'',
            last_seen = 60, latency = Some (3 / 2), created_at = 60\<rparr>],
         devices_seq = 4, raspberry_pi_nodes = [], nodes_seq = 0\<rparr>, None)"
    by (simp add: append_row_def new_row_def update_device_online_def init_database_def
        add_sample_data_def sample_devices_def insert_or_ignore_device_def empty_database_def)
  have nets: "net_if_addrs (gateways_net ''192.168.1'') =
      Inr [(''lo'', [\<lparr>family = AF_INET, address = ''127.0.0.1'', netmask = ''255.0.0.0''\<rparr>]),
           (''eth0'', [\<lparr>family = AF_INET, address = ''192.168.1.50'',
                        netmask = ''255.255.255.0''\<rparr>])]"
    by (simp add: gateways_net_def example_net_def)
  have "discover_network_devices (gateways_net ''192.168.1'') (\<lambda>ip. 60)
        (init_database 0 empty_database) =
      fst (scan_subnets (gateways_net ''192.168.1'') (\<lambda>ip. 60) (remdups [''192.168.1''])
        (init_database 0 empty_database))"
    by (simp only: discover_network_devices_def nets example_local_nets sum.case)
  then have "map name
     (devices (discover_network_devices (gateways_net ''192.168.1'') (\<lambda>ip. 60)
        (init_database 0 empty_database))) =
     [''Main Router'', ''Network Switch'', ''WiFi Access Point'', ''Gateway 254'']"
    by (simp add: sweep)
  with sweep up down show ?thesis by simp
qed

subsection \<open>The tiers of \<^verbatim>\<open>get_host_stats\<close>\<close>

lemma example_host_faults:
  "backup_load (example_host lines cpu b f) = b" "failsafe_fault (example_host lines cpu b f) = f"
  by (simp_all add: example_host_def)

text \<open>
  Claim C1. The handler is a total function: every exception of a tier is caught and
  the last tier is a constant. The source of the response names the first tier, in
  the order primary, backup, failsafe, minimal, whose block did not raise, and the
  blocks entered are exactly the tiers up to that one: a tier is entered only when
  every earlier tier raised. The primary block raises when the collector call
  raises, the backup block when loading the backup monitor raises, the failsafe block
  when its fault is present.
\<close>

theorem get_host_stats_first_tier:
  "get_host_stats_with call h =
     (if \<not> isl (primary_tier call) then ([Primary], projr (primary_tier call))
      else if \<not> isl (backup_tier h) then ([Primary, Backup], projr (backup_tier h))
      else if \<not> isl (failsafe_tier h) then ([Primary, Backup, Failsafe], projr (failsafe_tier h))
      else ([Primary, Backup, Failsafe, Minimal], minimal_response)) \<and>
   source (snd (get_host_stats_with call h)) =
     (if \<not> isl call then ''primary''
      else if backup_load h = None then ''backup''
      else if failsafe_fault h = None then ''failsafe''
      else ''minimal'') \<and>
   fst (get_host_stats_with call h) =
     (if \<not> isl call then [Primary]
      else if backup_load h = None then [Primary, Backup]
      else if failsafe_fault h = None then [Primary, Backup, Failsafe]
      else [Primary, Backup, Failsafe, Minimal])"
  by (auto simp: get_host_stats_with_def primary_tier_def backup_tier_def failsafe_tier_def
      minimal_response_def Let_def split: sum.splits option.splits)

theorem get_host_stats_first_tier_witness:
  "source (snd (get_host_stats_with (Inr zero_stats)
      (example_host plain_meminfo (Inr 5) (Some ImportError) (Some ImportError)))) = ''primary'' \<and>
   source (snd (get_host_stats_with (Inl (OSError ''psutil''))
      (example_host plain_meminfo (Inr 5) None (Some ImportError)))) = ''backup'' \<and>
   source (snd (get_host_stats_with (Inl (OSError ''psutil''))
      (example_host plain_meminfo (Inr 5) (Some ImportError) None))) = ''failsafe'' \<and>
   get_host_stats_with (Inl (OSError ''psutil''))
      (example_host plain_meminfo (Inr 5) (Some ImportError) (Some ImportError)) =
     ([Primary, Backup, Failsafe, Minimal], minimal_response)"
  using
    get_host_stats_first_tier [of "Inr zero_stats"
      "example_host plain_meminfo (Inr 5) (Some ImportError) (Some ImportError)"]
    get_host_stats_first_tier [of "Inl (OSError ''psutil'')"
      "example_host plain_meminfo (Inr 5) None (Some ImportError)"]
    get_host_stats_first_tier [of "Inl (OSError ''psutil'')"
      "example_host plain_meminfo (Inr 5) (Some ImportError) None"]
    get_host_stats_first_tier [of "Inl (OSError ''psutil'')"
      "example_host plain_meminfo (Inr 5) (Some ImportError) (Some ImportError)"]
  by (simp add: example_host_faults primary_tier_def backup_tier_def failsafe_tier_def Let_def)

text \<open>
  Claim C9. \<^verbatim>\<open>get_system_stats\<close> is a total function that returns the zero record,
  with no interfaces, whenever one of its psutil calls raises. The handler with this
  collector enters the primary block only and answers with the collector's record
  tagged primary; the backup tier is never attempted.
\<close>

theorem primary_never_falls_back:
  "(isl (cpu_percent h) \<or> isl (virtual_memory_percent h) \<or> isl (disk_usage_percent h) \<or>
    isl (net_if_addrs h) \<or> isl (boot_time h) \<longrightarrow>
    get_system_stats h =
      \<lparr>cpu_usage = 0, memory_usage = 0, disk_usage = 0, uptime_hours = 0, interfaces = []\<rparr>) \<and>
   get_host_stats h =
     ([Primary],
      \<lparr>cpuUsage = cpu_usage (get_system_stats h), memoryUsage = memory_usage (get_system_stats h),
       diskUsage = disk_usage (get_system_stats h), uptime = uptime_hours (get_system_stats h),
       networkInterfaces = interfaces (get_system_stats h), source = ''primary''\<rparr>) \<and>
   Backup \<notin> set (fst (get_host_stats h))"
  by (auto simp: get_system_stats_def zero_stats_def get_host_stats_def get_host_stats_with_def
      primary_tier_def split: sum.splits)

theorem primary_never_falls_back_witness:
  "isl (cpu_percent (example_host plain_meminfo (Inl (OSError ''psutil'')) None None)) \<and>
   get_system_stats (example_host plain_meminfo (Inl (OSError ''psutil'')) None None) =
      \<lparr>cpu_usage = 0, memory_usage = 0, disk_usage = 0, uptime_hours = 0, interfaces = []\<rparr> \<and>
   get_host_stats (example_host plain_meminfo (Inl (OSError ''psutil'')) None None) =
     ([Primary],
      \<lparr>cpuUsage = 0, memoryUsage = 0, diskUsage = 0, uptime = 0, networkInterfaces = [],
       source = ''primary''\<rparr>)"
proof -
  let ?h = "example_host plain_meminfo (Inl (OSError ''psutil'')) None None"
  have h: "isl (cpu_percent ?h)" by (simp add: example_host_def)
  from h primary_never_falls_back [of ?h]
  have z: "get_system_stats ?h =
      \<lparr>cpu_usage = 0, memory_usage = 0, disk_usage = 0, uptime_hours = 0, interfaces = []\<rparr>"
    by blast
  from primary_never_falls_back [of ?h] z
  have "get_host_stats ?h =
     ([Primary],
      \<lparr>cpuUsage = 0, memoryUsage = 0, diskUsage = 0, uptime = 0, networkInterfaces = [],
       source = ''primary''\<rparr>)"
    by simp
  with h z show ?thesis by simp
qed

subsection \<open>Percentages\<close>

lemma round_half_even_lower: "of_int a \<le> y \<Longrightarrow> a \<le> round_half_even y"
proof -
  assume "of_int a \<le> y"
  then have "a \<le> \<lfloor>y\<rfloor>" by (simp add: le_floor_iff)
  then show ?thesis by (simp add: round_half_even_def Let_def)
qed

lemma round_half_even_upper: "y \<le> of_int b \<Longrightarrow> round_half_even y \<le> b"
proof -
  assume le: "y \<le> of_int b"
  then have f: "\<lfloor>y\<rfloor> \<le> b" by (simp add: floor_le_iff)
  show ?thesis
  proof (cases "y - of_int \<lfloor>y\<rfloor> < 1 / 2")
    case True
    with f show ?thesis by (simp add: round_half_even_def Let_def)
  next
    case False
    then have "of_int \<lfloor>y\<rfloor> < y" by linarith
    with le have "(of_int \<lfloor>y\<rfloor> :: real) < of_int b" by linarith
    then have "\<lfloor>y\<rfloor> < b" by (simp only: of_int_less_iff)
    then show ?thesis by (simp add: round_half_even_def Let_def)
  qed
qed

lemma round1_range: "in_percent_range x \<Longrightarrow> in_percent_range (round1 x)"
proof -
  assume "in_percent_range x"
  then have "of_int 0 \<le> x * 10" "x * 10 \<le> of_int 1000" by (simp_all add: in_percent_range_def)
  then have "0 \<le> round_half_even (x * 10)" "round_half_even (x * 10) \<le> 1000"
    using round_half_even_lower [of 0 "x * 10"] round_half_even_upper [of "x * 10" 1000]
    by simp_all
  then show ?thesis by (simp add: in_percent_range_def round1_def)
qed

lemma ratio_range:
  "0 < t \<Longrightarrow> 0 \<le> u \<Longrightarrow> u \<le> t \<Longrightarrow> in_percent_range (real_of_int u / real_of_int t * 100)"
  by (simp add: in_percent_range_def divide_le_eq)

lemma percent_of_range: "0 \<le> u \<Longrightarrow> u \<le> t \<Longrightarrow> in_percent_range (percent_of u t)"
  using ratio_range [of t u] by (simp add: percent_of_def in_percent_range_def)

lemma zero_in_range: "in_percent_range 0" "in_percent_range 25" "in_percent_range 50"
  by (simp_all add: in_percent_range_def)

lemma cpu_clamped: "platform_system h = ''Linux'' \<Longrightarrow> in_percent_range (get_cpu_usage_basic h)"
  by (simp add: get_cpu_usage_basic_def in_percent_range_def Let_def
      split: sum.splits option.splits)

lemma memory_basic_range:
  assumes "readings_consistent h" and "platform_system h = ''Linux''"
  shows "in_percent_range (percent (get_memory_usage_basic h))"
proof (cases "proc_meminfo h")
  case (Inl e)
  with assms(2) show ?thesis by (simp add: get_memory_usage_basic_def zero_usage_def zero_in_range)
next
  case (Inr lines)
  show ?thesis
  proof (cases "build_meminfo (pyint h) 1024 lines Map.empty")
    case (Inl e)
    with Inr assms(2) show ?thesis
      by (simp add: get_memory_usage_basic_def zero_usage_def zero_in_range)
  next
    case (Inr meminfo)
    with \<open>proc_meminfo h = Inr lines\<close> assms(1)
    have "0 \<le> mem_available meminfo" "mem_available meminfo \<le> mem_total meminfo"
      unfolding readings_consistent_def by blast+
    then have "in_percent_range (round1 (percent_of (mem_total meminfo - mem_available meminfo)
        (mem_total meminfo)))"
      by (intro round1_range percent_of_range) simp_all
    with Inr \<open>proc_meminfo h = Inr lines\<close> assms(2) show ?thesis
      by (simp add: get_memory_usage_basic_def Let_def)
  qed
qed

lemma statvfs_ratio:
  assumes "f_bavail stat \<le> f_blocks stat"
  shows "0 \<le> int (f_blocks stat * f_frsize stat) - int (f_bavail stat * f_frsize stat)"
    and "int (f_blocks stat * f_frsize stat) - int (f_bavail stat * f_frsize stat)
           \<le> int (f_blocks stat * f_frsize stat)"
proof -
  from assms have "f_bavail stat * f_frsize stat \<le> f_blocks stat * f_frsize stat"
    by (rule mult_le_mono1)
  then have "int (f_bavail stat * f_frsize stat) \<le> int (f_blocks stat * f_frsize stat)"
    by (simp only: of_nat_le_iff)
  then show "0 \<le> int (f_blocks stat * f_frsize stat) - int (f_bavail stat * f_frsize stat)"
    and "int (f_blocks stat * f_frsize stat) - int (f_bavail stat * f_frsize stat)
           \<le> int (f_blocks stat * f_frsize stat)"
    by simp_all
qed

lemma disk_basic_range:
  assumes "readings_consistent h" and "platform_system h = ''Linux''"
  shows "in_percent_range (percent (get_disk_usage_basic h))"
proof (cases "statvfs_root h")
  case (Inl e)
  with assms(2) show ?thesis by (simp add: get_disk_usage_basic_def zero_usage_def zero_in_range)
next
  case (Inr stat)
  with assms(1) have "f_bavail stat \<le> f_blocks stat" unfolding readings_consistent_def by blast
  then have "in_percent_range (round1 (percent_of
      (int (f_blocks stat * f_frsize stat) - int (f_bavail stat * f_frsize stat))
      (int (f_blocks stat * f_frsize stat))))"
    by (intro round1_range percent_of_range statvfs_ratio)
  with Inr assms(2) show ?thesis by (simp add: get_disk_usage_basic_def Let_def)
qed

lemma failsafe_memory_range:
  assumes "readings_consistent h"
  shows "in_percent_range (failsafe_memory h)"
proof (cases "platform_system h = ''Linux'' \<and> meminfo_exists h")
  case False
  then show ?thesis by (auto simp: failsafe_memory_def zero_in_range)
next
  case True
  show ?thesis
  proof (cases "proc_meminfo h")
    case (Inl e)
    with True show ?thesis by (simp add: failsafe_memory_def zero_in_range)
  next
    case (Inr lines)
    show ?thesis
    proof (cases "build_meminfo (pyint h) 1 lines Map.empty")
      case (Inl e)
      with Inr True show ?thesis by (simp add: failsafe_memory_def zero_in_range)
    next
      case (Inr meminfo)
      with \<open>proc_meminfo h = Inr lines\<close> assms
      have a: "0 \<le> mem_available meminfo" "mem_available meminfo \<le> mem_total meminfo"
        unfolding readings_consistent_def by blast+
      show ?thesis
      proof (cases "0 < mem_total meminfo")
        case False
        with Inr \<open>proc_meminfo h = Inr lines\<close> True show ?thesis
          by (simp add: failsafe_memory_def Let_def zero_in_range)
      next
        case pos: True
        from a pos have "in_percent_range (round1 (real_of_int (mem_total meminfo - mem_available meminfo)
            / real_of_int (mem_total meminfo) * 100))"
          by (intro round1_range ratio_range) simp_all
        with pos Inr \<open>proc_meminfo h = Inr lines\<close> True show ?thesis
          by (simp add: failsafe_memory_def Let_def)
      qed
    qed
  qed
qed

lemma failsafe_disk_range:
  assumes "readings_consistent h"
  shows "in_percent_range (failsafe_disk h)"
proof (cases "statvfs_root h")
  case (Inl e)
  then show ?thesis by (simp add: failsafe_disk_def zero_in_range)
next
  case (Inr stat)
  with assms have le: "f_bavail stat \<le> f_blocks stat" unfolding readings_consistent_def by blast
  show ?thesis
  proof (cases "0 < int (f_blocks stat * f_frsize stat)")
    case False
    with Inr show ?thesis by (simp add: failsafe_disk_def Let_def zero_in_range)
  next
    case True
    then have "in_percent_range (round1 (real_of_int
        (int (f_blocks stat * f_frsize stat) - int (f_bavail stat * f_frsize stat))
        / real_of_int (int (f_blocks stat * f_frsize stat)) * 100))"
      by (intro round1_range ratio_range statvfs_ratio le)
    with True Inr show ?thesis by (simp add: failsafe_disk_def Let_def)
  qed
qed

lemma primary_range:
  assumes "readings_consistent h"
  shows "in_percent_range (cpu_usage (get_system_stats h))"
    and "in_percent_range (memory_usage (get_system_stats h))"
    and "in_percent_range (disk_usage (get_system_stats h))"
  using assms unfolding readings_consistent_def
  by (auto simp: get_system_stats_def zero_stats_def zero_in_range intro: round1_range
      split: sum.splits)

text \<open>
  Claim C3, as amended. On Linux the CPU figure of the backup collector lies within
  [0, 100] whatever \<^verbatim>\<open>/proc/stat\<close> holds: it is clamped. No other percentage is
  clamped. When the readings of the host are consistent, and the response does not
  come from the backup tier off Linux, the three percentages of the response of
  \<^verbatim>\<open>get_host_stats\<close> lie within [0, 100], whichever tier answers; the primary
  collector is the one of this repository or one that raises.
\<close>

theorem consistent_readings_in_range:
  "(platform_system h = ''Linux'' \<longrightarrow> in_percent_range (get_cpu_usage_basic h)) \<and>
   (readings_consistent h \<and> (call = Inr (get_system_stats h) \<or> isl call) \<and>
    (platform_system h = ''Linux'' \<or> source (snd (get_host_stats_with call h)) \<noteq> ''backup'') \<longrightarrow>
    percentages_in_range (snd (get_host_stats_with call h)))"
proof (intro conjI impI)
  assume "platform_system h = ''Linux''"
  then show "in_percent_range (get_cpu_usage_basic h)" by (rule cpu_clamped)
next
  assume a: "readings_consistent h \<and> (call = Inr (get_system_stats h) \<or> isl call) \<and>
    (platform_system h = ''Linux'' \<or> source (snd (get_host_stats_with call h)) \<noteq> ''backup'')"
  then have rc: "readings_consistent h" by simp
  show "percentages_in_range (snd (get_host_stats_with call h))"
  proof (cases "isl call")
    case False
    with a have "call = Inr (get_system_stats h)" by simp
    then show ?thesis
      using primary_range [OF rc]
      by (simp add: get_host_stats_with_def primary_tier_def percentages_in_range_def)
  next
    case True
    then obtain e where call: "call = Inl e" by (cases call) simp_all
    show ?thesis
    proof (cases "backup_load h")
      case None
      with call have src: "source (snd (get_host_stats_with call h)) = ''backup''"
        by (simp add: get_host_stats_with_def primary_tier_def backup_tier_def Let_def)
      with a have linux: "platform_system h = ''Linux''" by simp
      from None call show ?thesis
        using cpu_clamped [OF linux] memory_basic_range [OF rc linux] disk_basic_range [OF rc linux]
        by (simp add: get_host_stats_with_def primary_tier_def backup_tier_def Let_def
            run_monitoring_cycle_def collect_system_stats_def percentages_in_range_def)
    next
      case (Some be)
      show ?thesis
      proof (cases "failsafe_fault h")
        case None
        with Some call show ?thesis
          using failsafe_memory_range [OF rc] failsafe_disk_range [OF rc]
          by (simp add: get_host_stats_with_def primary_tier_def backup_tier_def
              failsafe_tier_def percentages_in_range_def zero_in_range)
      next
        case (Some fe)
        with \<open>backup_load h = Some be\<close> call show ?thesis
          by (simp add: get_host_stats_with_def primary_tier_def backup_tier_def
              failsafe_tier_def minimal_response_def percentages_in_range_def zero_in_range)
      qed
    qed
  qed
qed

lemma plain_meminfo_parsed:
  "build_meminfo decimal_int unit plain_meminfo Map.empty =
     Inr [''MemTotal'' \<mapsto> 4000 * unit, ''MemFree'' \<mapsto> 500 * unit, ''MemAvailable'' \<mapsto> 1000 * unit]"
  by (simp add: plain_meminfo_def string_defs decimal_int_def Let_def)

lemma container_meminfo_parsed:
  "build_meminfo decimal_int unit container_meminfo Map.empty =
     Inr [''MemTotal'' \<mapsto> 1000 * unit, ''MemFree'' \<mapsto> 500 * unit, ''MemAvailable'' \<mapsto> 2000 * unit]"
  by (simp add: container_meminfo_def string_defs decimal_int_def Let_def)

lemma example_host_consistent:
  "in_percent_range v \<Longrightarrow> readings_consistent (example_host plain_meminfo (Inr v) b f)"
  by (auto simp: readings_consistent_def example_host_def plain_meminfo_parsed in_percent_range_def
      mem_available_def mem_total_def dict_get_def)

theorem consistent_readings_in_range_witness:
  "platform_system (example_host plain_meminfo (Inr (1234 / 100)) None None) = ''Linux'' \<and>
   readings_consistent (example_host plain_meminfo (Inr (1234 / 100)) None None) \<and>
   isl (Inl (OSError ''psutil'') :: error + system_stats) \<and>
   in_percent_range (get_cpu_usage_basic (example_host plain_meminfo (Inr (1234 / 100)) None None)) \<and>
   percentages_in_range
     (snd (get_host_stats_with (Inl (OSError ''psutil''))
        (example_host plain_meminfo (Inr (1234 / 100)) None None)))"
proof -
  let ?h = "example_host plain_meminfo (Inr (1234 / 100)) None None"
  have linux: "platform_system ?h = ''Linux''" by (simp add: example_host_def)
  have rc: "readings_consistent ?h"
    by (rule example_host_consistent) (simp add: in_percent_range_def)
  from linux rc consistent_readings_in_range [of ?h "Inl (OSError ''psutil'')"]
  show ?thesis by simp
qed

text \<open>
  Claim C3 as stated fails: where \<^verbatim>\<open>/proc/meminfo\<close> reports more memory available than
  in total, the backup collector reports a memory percentage of -100, and so does the
  response of the failsafe tier.
\<close>

theorem negative_memory_counterexample:
  "percent (get_memory_usage_basic (example_host container_meminfo (Inr 5) None None)) = - 100 \<and>
   get_host_stats_with (Inl (OSError ''psutil''))
       (example_host container_meminfo (Inr 5) (Some ImportError) None) =
     ([Primary, Backup, Failsafe],
      \<lparr>cpuUsage = 25, memoryUsage = - 100, diskUsage = 50, uptime = 1,
       networkInterfaces =
         [\<lparr>iface_name = ''eth0'', iface_ip = ''127.0.0.1'', iface_netmask = ''255.0.0.0''\<rparr>],
       source = ''failsafe''\<rparr>) \<and>
   \<not> percentages_in_range
       (snd (get_host_stats_with (Inl (OSError ''psutil''))
          (example_host container_meminfo (Inr 5) (Some ImportError) None)))"
proof -
  have r: "round1 (- 100) = - 100" "round1 50 = 50"
    by (simp_all add: round1_def round_half_even_def)
  have m: "percent (get_memory_usage_basic (example_host container_meminfo (Inr 5) None None)) = - 100"
    by (simp add: get_memory_usage_basic_def example_host_def container_meminfo_parsed Let_def
        mem_total_def mem_available_def dict_get_def percent_of_def r)
  have fm: "failsafe_memory (example_host container_meminfo (Inr 5) (Some ImportError) None) = - 100"
    by (simp add: failsafe_memory_def example_host_def container_meminfo_parsed Let_def
        mem_total_def mem_available_def dict_get_def r)
  have fd: "failsafe_disk (example_host container_meminfo (Inr 5) (Some ImportError) None) = 50"
    by (simp add: failsafe_disk_def example_host_def Let_def r)
  have bl: "backup_load (example_host container_meminfo (Inr 5) (Some ImportError) None) =
      Some ImportError"
    by (simp add: example_host_def)
  have ff: "failsafe_fault (example_host container_meminfo (Inr 5) (Some ImportError) None) = None"
    by (simp add: example_host_def)
  have g: "get_host_stats_with (Inl (OSError ''psutil''))
       (example_host container_meminfo (Inr 5) (Some ImportError) None) =
     ([Primary, Backup, Failsafe],
      \<lparr>cpuUsage = 25, memoryUsage = - 100, diskUsage = 50, uptime = 1,
       networkInterfaces =
         [\<lparr>iface_name = ''eth0'', iface_ip = ''127.0.0.1'', iface_netmask = ''255.0.0.0''\<rparr>],
       source = ''failsafe''\<rparr>)"
    using fm fd bl ff
    by (simp add: get_host_stats_with_def primary_tier_def backup_tier_def failsafe_tier_def)
  show ?thesis using m g by (simp add: percentages_in_range_def in_percent_range_def)
qed

text \<open>
  Off Linux the CPU figure of the backup collector is the number \<^verbatim>\<open>top\<close> printed
  before the word containing \<^verbatim>\<open>us\<close>, as it is: this branch has no clamp.
\<close>

lemma top_reading_not_clamped:
  "get_cpu_usage_basic (bsd_host (''last pid: 1'' @ [CHR 0x0A] @ ''%Cpu(s): 250.0 us,  2.0 sy'')) = 250"
  by (simp add: bsd_host_def example_host_def get_cpu_usage_basic_def string_defs
      decimal_float_def str_remove_def Let_def)

end
